theory Spec2Isabelle
  imports Main
begin

section \<open>Data model\<close>

text \<open>
  The two Mongoose collections of the backend. A document identifier (ObjectId) is twelve
  bytes, kept here as the number they denote; the strings that arrive in a request
  (\<open>request.params.id\<close>, the \<open>id\<close> of a decoded token) are cast to it by
  \<open>castObjectId\<close> below, which fails the way Mongoose's cast does. A note's
  \<open>important\<close> is a boolean or \<open>null\<close>.
\<close>

type_synonym oid = nat

record Note =
  note_id :: oid
  content :: string
  important :: "bool option"
  user :: "oid option"

record User =
  user_id :: oid
  username :: string
  name :: "string option"
  passwordHash :: string
  user_notes :: "oid list"

text \<open>
  The stored data: the two collections, and the largest identifier the driver has
  generated so far (identifiers are generated fresh and are not issued again).
\<close>

record db =
  noteStore :: "Note list"
  userStore :: "User list"
  lastObjectId :: oid

text \<open>
  A value of a JSON request body as JavaScript sees it. A number is kept as an integer;
  \<open>JObject\<close> stands for any object or array.
\<close>

datatype jsvalue =
    JUndefined
  | JNull
  | JBool bool
  | JNumber int
  | JString string
  | JObject

text \<open>
  Errors that the handlers catch and pass to \<open>next\<close>. A \<open>TypeError\<close> carries the
  expression whose evaluation threw it (a property read of \<open>null\<close>).
\<close>

datatype error =
    JsonWebTokenError
  | TypeError string
  | CastError
  | ValidationError
  | HeadersSentError
  | BcryptError
  | SignError

text \<open>
  What a handler writes to the client: \<open>response.json(v)\<close>, \<open>response.send(v)\<close> or
  \<open>response.end()\<close>. A listed note carries the \<open>username\<close> and \<open>name\<close> of its
  populated user, or nothing when the reference resolves to no user.
\<close>

datatype json_body =
    NoBody
  | NullJson
  | NoteJson Note
  | NoteListJson "(Note \<times> (string \<times> string option) option) list"
  | ErrorJson string
  | ErrorMessageJson string
  | TokenJson string string "string option"

text \<open>
  The Express response object: the status code set so far (200 until \<open>status\<close> is
  called) and the response that went out, if one did.
\<close>

record Response =
  statusCode :: nat
  sent :: "(nat \<times> json_body) option"

text \<open>
  The arguments of the calls a handler makes: the document given to \<open>new Note\<close>, the
  update document and the options given to \<open>findByIdAndUpdate\<close>.
\<close>

record note_fields =
  doc_content :: "string option"
  doc_important :: jsvalue
  doc_user :: oid

record note_update =
  upd_content :: "string option"
  upd_important :: jsvalue

record update_options =
  opt_new :: bool
  opt_runValidators :: bool

text \<open>
  What a handler does that can be seen from outside, in the order in which it does it:
  the calls it makes to the models and to the token and hash libraries, the response it
  sends, the error it hands to \<open>next\<close>.
\<close>

datatype call =
    JwtVerify "string option"
  | JwtSign string oid
  | BcryptCompare "string option" string
  | UserFindById "string option"
  | UserFindOne "string option"
  | UserSave User
  | NoteFind
  | NoteFindById string
  | NoteSave note_fields
  | NoteFindByIdAndRemove string
  | NoteFindByIdAndUpdate string note_update update_options

datatype event =
    Called call
  | Responded nat json_body
  | Forwarded error

text \<open>
  Everything a handler can change: the response, the stored data, the error handed to
  \<open>next\<close>, if any, and the events so far.
\<close>

record world =
  res :: Response
  store :: db
  forwarded :: "error option"
  trace :: "event list"

section \<open>Handlers as state transformers that may throw\<close>

type_synonym 'a io = "world \<Rightarrow> (error + 'a) \<times> world"

definition returnM :: "'a \<Rightarrow> 'a io" where
  "returnM x = (\<lambda>w. (Inr x, w))"

definition throwM :: "error \<Rightarrow> 'a io" where
  "throwM e = (\<lambda>w. (Inl e, w))"

definition bindM :: "'a io \<Rightarrow> ('a \<Rightarrow> 'b io) \<Rightarrow> 'b io" where
  "bindM m f = (\<lambda>w. case m w of (Inl e, w') \<Rightarrow> (Inl e, w') | (Inr x, w') \<Rightarrow> f x w')"

text \<open>
  \<open>try { body } catch (error) { handler(error) }\<close>, and equally
  \<open>promise.then(...).catch(handler)\<close>: what the body wrote before it threw stays written.
\<close>

definition tryCatch :: "unit io \<Rightarrow> (error \<Rightarrow> unit io) \<Rightarrow> unit io" where
  "tryCatch m h = (\<lambda>w. case m w of (Inl e, w') \<Rightarrow> h e w' | (Inr x, w') \<Rightarrow> (Inr x, w'))"

definition emit :: "event \<Rightarrow> world \<Rightarrow> world" where
  "emit e w = w\<lparr>trace := trace w @ [e]\<rparr>"

text \<open>A call to a library: the call is recorded, then it runs.\<close>

definition called :: "call \<Rightarrow> 'a io \<Rightarrow> 'a io" where
  "called c m = (\<lambda>w. m (emit (Called c) w))"

subsection \<open>The Express response\<close>

definition status :: "nat \<Rightarrow> unit io" where
  "status c = (\<lambda>w. (Inr (), w\<lparr>res := (res w)\<lparr>statusCode := c\<rparr>\<rparr>))"

text \<open>
  \<open>response.json\<close> and \<open>response.send\<close> set headers, which throws
  \<open>ERR_HTTP_HEADERS_SENT\<close> once a response has gone out.
\<close>

definition json :: "json_body \<Rightarrow> unit io" where
  "json v = (\<lambda>w. if sent (res w) = None
                  then (Inr (), emit (Responded (statusCode (res w)) v)
                                  (w\<lparr>res := (res w)\<lparr>sent := Some (statusCode (res w), v)\<rparr>\<rparr>))
                  else (Inl HeadersSentError, w))"

definition send :: "json_body \<Rightarrow> unit io" where
  "send v = json v"

definition end_response :: "unit io" where
  "end_response = (\<lambda>w. if sent (res w) = None
                  then (Inr (), emit (Responded (statusCode (res w)) NoBody)
                                  (w\<lparr>res := (res w)\<lparr>sent := Some (statusCode (res w), NoBody)\<rparr>\<rparr>))
                  else (Inr (), w))"

definition nextM :: "error \<Rightarrow> unit io" where
  "nextM e = (\<lambda>w. (Inr (), emit (Forwarded e) (w\<lparr>forwarded := Some e\<rparr>)))"

text \<open>One request: the handler runs on a fresh response against the stored data.\<close>

definition fresh :: "db \<Rightarrow> world" where
  "fresh d = \<lparr>res = \<lparr>statusCode = 200, sent = None\<rparr>, store = d, forwarded = None, trace = []\<rparr>"

definition handle :: "unit io \<Rightarrow> db \<Rightarrow> world" where
  "handle h d = snd (h (fresh d))"

section \<open>JavaScript values\<close>

text \<open>What \<open>!v\<close>, \<open>v && ...\<close> and \<open>v || ...\<close> test.\<close>

definition js_truthy :: "jsvalue \<Rightarrow> bool" where
  "js_truthy v =
     (case v of
        JUndefined \<Rightarrow> False
      | JNull \<Rightarrow> False
      | JBool b \<Rightarrow> b
      | JNumber n \<Rightarrow> n \<noteq> 0
      | JString s \<Rightarrow> s \<noteq> []
      | JObject \<Rightarrow> True)"

text \<open>\<open>a || b\<close>\<close>

definition js_or :: "jsvalue \<Rightarrow> jsvalue \<Rightarrow> jsvalue" where
  "js_or a b = (if js_truthy a then a else b)"

section \<open>The Mongoose models\<close>

subsection \<open>Casting a string to an ObjectId\<close>

definition isHexDigit :: "char \<Rightarrow> bool" where
  "isHexDigit c = (let k = (of_char c :: nat) in
     (48 \<le> k \<and> k \<le> 57) \<or> (65 \<le> k \<and> k \<le> 70) \<or> (97 \<le> k \<and> k \<le> 102))"

definition hexDigitVal :: "char \<Rightarrow> nat" where
  "hexDigitVal c = (let k = (of_char c :: nat) in
     if k \<le> 57 then k - 48 else if k \<le> 70 then k - 55 else k - 87)"

definition hexVal :: "string \<Rightarrow> nat" where
  "hexVal s = foldl (\<lambda>acc c. 16 * acc + hexDigitVal c) 0 s"

definition bytesVal :: "string \<Rightarrow> nat" where
  "bytesVal s = foldl (\<lambda>acc c. 256 * acc + of_char c) 0 s"

text \<open>
  The ObjectId constructor that Mongoose's cast calls takes a string of 12 characters as
  the twelve bytes themselves and a string of 24 hexadecimal digits as their hexadecimal
  form; for any other string it throws, and the query fails with a \<open>CastError\<close>.
\<close>

definition castObjectId :: "string \<Rightarrow> oid option" where
  "castObjectId s =
     (if length s = 12 then Some (bytesVal s)
      else if length s = 24 \<and> list_all isHexDigit s then Some (hexVal s)
      else None)"

subsection \<open>Notes\<close>

text \<open>
  Modelled from the spec: the Note schema (\<open>models/note.js\<close>) is not among the sources.
  The spec's data model says of a Note that \<open>content\<close> is non-empty text and required;
  saving a document that breaks this fails with a validation error.
\<close>

definition validContent :: "string option \<Rightarrow> bool" where
  "validContent c = (case c of None \<Rightarrow> False | Some s \<Rightarrow> s \<noteq> [])"

text \<open>
  Modelled from the spec: the spec's data model makes \<open>important\<close> a boolean flag. For
  a boolean path Mongoose takes \<open>true\<close>, \<open>"true"\<close>, \<open>1\<close>, \<open>"1"\<close> and \<open>"yes"\<close> as true,
  \<open>false\<close>, \<open>"false"\<close>, \<open>0\<close>, \<open>"0"\<close> and \<open>"no"\<close> as false, leaves \<open>null\<close> and
  \<open>undefined\<close> as they are, and fails to cast anything else.
\<close>

definition castBoolean :: "jsvalue \<Rightarrow> error + bool option" where
  "castBoolean v =
     (case v of
        JUndefined \<Rightarrow> Inr None
      | JNull \<Rightarrow> Inr None
      | JBool b \<Rightarrow> Inr (Some b)
      | JNumber n \<Rightarrow>
          if n = 1 then Inr (Some True) else if n = 0 then Inr (Some False) else Inl CastError
      | JString s \<Rightarrow>
          if s = ''true'' \<or> s = ''1'' \<or> s = ''yes'' then Inr (Some True)
          else if s = ''false'' \<or> s = ''0'' \<or> s = ''no'' then Inr (Some False)
          else Inl CastError
      | JObject \<Rightarrow> Inl CastError)"

text \<open>
  The identifier of a new document is generated by the driver: it is unlike every stored
  identifier and every identifier generated before.
\<close>

definition newObjectId :: "db \<Rightarrow> oid" where
  "newObjectId d = Suc (max (lastObjectId d) (foldr max (map note_id (noteStore d)) 0))"

text \<open>\<open>Note.find({}).populate("user", {username: 1, name: 1})\<close>\<close>

definition populate :: "User list \<Rightarrow> Note \<Rightarrow> Note \<times> (string \<times> string option) option" where
  "populate us n =
     (n, case user n of
           None \<Rightarrow> None
         | Some k \<Rightarrow> map_option (\<lambda>u. (username u, name u)) (find (\<lambda>u. user_id u = k) us))"

definition Note_find :: "(Note \<times> (string \<times> string option) option) list io" where
  "Note_find = called NoteFind (\<lambda>w.
     (Inr (map (populate (userStore (store w))) (noteStore (store w))), w))"

definition Note_findById :: "string \<Rightarrow> Note option io" where
  "Note_findById i = called (NoteFindById i) (\<lambda>w.
     case castObjectId i of
       None \<Rightarrow> (Inl CastError, w)
     | Some k \<Rightarrow> (Inr (find (\<lambda>n. note_id n = k) (noteStore (store w))), w))"

text \<open>
  \<open>new Note({content, important, user})\<close> followed by \<open>note.save()\<close>: the document is
  validated, a value that does not cast to its path's type being a validation error as
  well, and it is inserted under a new identifier when it is valid.
\<close>

definition Note_save :: "note_fields \<Rightarrow> Note io" where
  "Note_save f = called (NoteSave f) (\<lambda>w.
     case castBoolean (doc_important f) of
       Inl e \<Rightarrow> (Inl ValidationError, w)
     | Inr flag \<Rightarrow>
         (case doc_content f of
            None \<Rightarrow> (Inl ValidationError, w)
          | Some s \<Rightarrow>
              if validContent (Some s)
              then (Inr \<lparr>note_id = newObjectId (store w), content = s, important = flag,
                         user = Some (doc_user f)\<rparr>,
                    w\<lparr>store := (store w)
                         \<lparr>noteStore := noteStore (store w) @
                            [\<lparr>note_id = newObjectId (store w), content = s, important = flag,
                              user = Some (doc_user f)\<rparr>],
                          lastObjectId := newObjectId (store w)\<rparr>\<rparr>)
              else (Inl ValidationError, w)))"

definition Note_findByIdAndRemove :: "string \<Rightarrow> Note option io" where
  "Note_findByIdAndRemove i = called (NoteFindByIdAndRemove i) (\<lambda>w.
     case castObjectId i of
       None \<Rightarrow> (Inl CastError, w)
     | Some k \<Rightarrow>
         (case find (\<lambda>n. note_id n = k) (noteStore (store w)) of
            None \<Rightarrow> (Inr None, w)
          | Some n \<Rightarrow>
              (Inr (Some n), w\<lparr>store := (store w)\<lparr>noteStore := remove1 n (noteStore (store w))\<rparr>\<rparr>)))"

text \<open>
  The update document \<open>{content: body.content, important: body.important}\<close>: a field
  that is \<open>undefined\<close> is dropped from the update, so the stored value stays; any other
  value of \<open>important\<close> is stored as the boolean path casts it.
\<close>

definition applyUpdate :: "note_update \<Rightarrow> bool option \<Rightarrow> Note \<Rightarrow> Note" where
  "applyUpdate u flag n =
     n\<lparr>content := (case upd_content u of None \<Rightarrow> content n | Some c \<Rightarrow> c),
       important := (case upd_important u of JUndefined \<Rightarrow> important n | _ \<Rightarrow> flag)\<rparr>"

fun replaceFirst :: "('a \<Rightarrow> bool) \<Rightarrow> 'a \<Rightarrow> 'a list \<Rightarrow> 'a list" where
  "replaceFirst p y [] = []"
| "replaceFirst p y (x # xs) = (if p x then y # xs else x # replaceFirst p y xs)"

text \<open>
  \<open>Note.findByIdAndUpdate(id, update, options)\<close>. The identifier and the update are
  cast, which can throw a \<open>CastError\<close>. Mongoose validates an update only when the
  options ask for it (\<open>runValidators\<close>), and then only the fields the update sets; it
  resolves to \<open>null\<close> when no document has the identifier.
\<close>

definition Note_findByIdAndUpdate :: "string \<Rightarrow> note_update \<Rightarrow> update_options \<Rightarrow> Note option io" where
  "Note_findByIdAndUpdate i u opts = called (NoteFindByIdAndUpdate i u opts) (\<lambda>w.
     case castObjectId i of
       None \<Rightarrow> (Inl CastError, w)
     | Some k \<Rightarrow>
         (case castBoolean (upd_important u) of
            Inl e \<Rightarrow> (Inl CastError, w)
          | Inr flag \<Rightarrow>
              if opt_runValidators opts \<and> upd_content u = Some []
              then (Inl ValidationError, w)
              else
                (case find (\<lambda>n. note_id n = k) (noteStore (store w)) of
                   None \<Rightarrow> (Inr None, w)
                 | Some n \<Rightarrow>
                     (Inr (Some (if opt_new opts then applyUpdate u flag n else n)),
                      w\<lparr>store := (store w)\<lparr>noteStore :=
                           replaceFirst (\<lambda>n. note_id n = k) (applyUpdate u flag n)
                             (noteStore (store w))\<rparr>\<rparr>))))"

subsection \<open>Users\<close>

text \<open>
  \<open>User.findById(id)\<close>: Mongoose turns \<open>findById(undefined)\<close> into a query for the
  identifier \<open>null\<close>, which no document has.
\<close>

definition User_findById :: "string option \<Rightarrow> User option io" where
  "User_findById i = called (UserFindById i) (\<lambda>w.
     case i of
       None \<Rightarrow> (Inr None, w)
     | Some s \<Rightarrow>
         (case castObjectId s of
            None \<Rightarrow> (Inl CastError, w)
          | Some k \<Rightarrow> (Inr (find (\<lambda>u. user_id u = k) (userStore (store w))), w)))"

definition User_findOne :: "string option \<Rightarrow> User option io" where
  "User_findOne un = called (UserFindOne un) (\<lambda>w.
     case un of
       None \<Rightarrow> (Inr None, w)
     | Some s \<Rightarrow> (Inr (find (\<lambda>u. username u = s) (userStore (store w))), w))"

definition User_save :: "User \<Rightarrow> unit io" where
  "User_save u = called (UserSave u) (\<lambda>w.
     (Inr (), w\<lparr>store := (store w)\<lparr>userStore :=
                  replaceFirst (\<lambda>x. user_id x = user_id u) u (userStore (store w))\<rparr>\<rparr>))"

section \<open>Tokens and password hashes\<close>

record token_payload =
  decoded_username :: "string option"
  decoded_id :: "string option"

text \<open>
  \<open>jwt.verify(token, process.env.SECRET)\<close>. Which strings carry a valid signature under
  the secret, and what they decode to, is a parameter; a token that is \<open>null\<close> is
  rejected whatever the secret ("jwt must be provided").
\<close>

type_synonym verifier = "string \<Rightarrow> token_payload option"

definition jwt_verify :: "verifier \<Rightarrow> string option \<Rightarrow> token_payload io" where
  "jwt_verify secret token = called (JwtVerify token)
     (case token of
        None \<Rightarrow> throwM JsonWebTokenError
      | Some t \<Rightarrow> (case secret t of None \<Rightarrow> throwM JsonWebTokenError | Some p \<Rightarrow> returnM p))"

text \<open>\<open>jwt.sign({username, id}, process.env.SECRET)\<close>, which throws without a secret.\<close>

type_synonym signer = "string \<Rightarrow> oid \<Rightarrow> string option"

definition jwt_sign :: "signer \<Rightarrow> string \<Rightarrow> oid \<Rightarrow> string io" where
  "jwt_sign secret un i = called (JwtSign un i)
     (case secret un i of None \<Rightarrow> throwM SignError | Some t \<Rightarrow> returnM t)"

text \<open>
  \<open>bcrypt.compare(password, hash)\<close>: the hash function is a parameter; a password that
  is \<open>undefined\<close> makes the call reject ("data and hash arguments required").
\<close>

type_synonym hasher = "string \<Rightarrow> string \<Rightarrow> bool"

definition bcrypt_compare :: "hasher \<Rightarrow> string option \<Rightarrow> string \<Rightarrow> bool io" where
  "bcrypt_compare cmp password hash = called (BcryptCompare password hash)
     (case password of None \<Rightarrow> throwM BcryptError | Some p \<Rightarrow> returnM (cmp p hash))"

section \<open>controllers/notes.js\<close>

text \<open>
  The body of a request for a note: \<open>content\<close> is text or absent; \<open>important\<close> is any
  JSON value, \<open>JUndefined\<close> when the field is absent.
\<close>

record note_body =
  body_content :: "string option"
  body_important :: jsvalue

record post_request =
  authorization :: "string option"
  body :: note_body

definition startsWith :: "string \<Rightarrow> string \<Rightarrow> bool" where
  "startsWith s p = (take (length p) s = p)"

text \<open>\<open>s.replace(pat, rep)\<close> with a string pattern replaces the first occurrence only.\<close>

fun replace :: "string \<Rightarrow> string \<Rightarrow> string \<Rightarrow> string" where
  "replace [] pat rep = (if pat = [] then rep else [])"
| "replace (c # cs) pat rep =
     (if startsWith (c # cs) pat then rep @ drop (length pat) (c # cs)
      else c # replace cs pat rep)"

definition getTokenFrom :: "post_request \<Rightarrow> string option" where
  "getTokenFrom request =
     (case authorization request of
        None \<Rightarrow> None
      | Some a \<Rightarrow>
          if a \<noteq> [] \<and> startsWith a ''Bearer''
          then Some (replace a ''Bearer '' [])
          else None)"

definition notes_get_all :: "unit io" where
  "notes_get_all = tryCatch (bindM Note_find (\<lambda>ns. json (NoteListJson ns))) nextM"

definition notes_get :: "string \<Rightarrow> unit io" where
  "notes_get i =
     tryCatch
       (bindM (Note_findById i) (\<lambda>found.
          case found of
            Some n \<Rightarrow> json (NoteJson n)
          | None \<Rightarrow> bindM (status 404) (\<lambda>_. end_response)))
       nextM"

text \<open>\<open>!decodedToken.id\<close> holds of an absent and of an empty identifier.\<close>

definition truthy :: "string option \<Rightarrow> bool" where
  "truthy s = (case s of None \<Rightarrow> False | Some x \<Rightarrow> x \<noteq> [])"

text \<open>
  The create handler. After the lookup the note is built from
  \<open>{content: body.content, important: body.important || false, user: user.id}\<close>;
  reading \<open>user.id\<close> throws a \<open>TypeError\<close> when the lookup gave \<open>null\<close>.
\<close>

definition notes_post :: "verifier \<Rightarrow> post_request \<Rightarrow> unit io" where
  "notes_post secret request =
     tryCatch
       (bindM (jwt_verify secret (getTokenFrom request)) (\<lambda>decodedToken.
        bindM (if \<not> truthy (decoded_id decodedToken)
               then bindM (status 401) (\<lambda>_. json (ErrorJson ''invalid token''))
               else returnM ()) (\<lambda>_.
        bindM (User_findById (decoded_id decodedToken)) (\<lambda>found.
        case found of
          None \<Rightarrow> throwM (TypeError ''user.id'')
        | Some usr \<Rightarrow>
            bindM (Note_save \<lparr>doc_content = body_content (body request),
                              doc_important = js_or (body_important (body request)) (JBool False),
                              doc_user = user_id usr\<rparr>) (\<lambda>savedNote.
            bindM (User_save (usr\<lparr>user_notes := user_notes usr @ [note_id savedNote]\<rparr>)) (\<lambda>_.
            bindM (status 201) (\<lambda>_.
            json (NoteJson savedNote))))))))
       nextM"

definition notes_delete :: "string \<Rightarrow> unit io" where
  "notes_delete i =
     tryCatch
       (bindM (Note_findByIdAndRemove i) (\<lambda>_.
        bindM (status 204) (\<lambda>_. end_response)))
       nextM"

definition notes_put :: "string \<Rightarrow> note_body \<Rightarrow> unit io" where
  "notes_put i b =
     tryCatch
       (bindM (Note_findByIdAndUpdate i
                 \<lparr>upd_content = body_content b, upd_important = body_important b\<rparr>
                 \<lparr>opt_new = True, opt_runValidators = False\<rparr>) (\<lambda>updatedNote.
          json (case updatedNote of None \<Rightarrow> NullJson | Some n \<Rightarrow> NoteJson n)))
       nextM"

section \<open>controllers/login.js\<close>

record login_body =
  body_username :: "string option"
  body_password :: "string option"

definition login_post :: "hasher \<Rightarrow> signer \<Rightarrow> login_body \<Rightarrow> unit io" where
  "login_post cmp secret b =
     tryCatch
       (bindM (User_findOne (body_username b)) (\<lambda>found.
        bindM (case found of
                 None \<Rightarrow> returnM False
               | Some usr \<Rightarrow> bcrypt_compare cmp (body_password b) (passwordHash usr)) (\<lambda>passwordCorrect.
        bindM (if \<not> (found \<noteq> None \<and> passwordCorrect)
               then bindM (status 401)
                      (\<lambda>_. json (ErrorMessageJson ''username or password is invalid''))
               else returnM ()) (\<lambda>_.
        case found of
          None \<Rightarrow> throwM (TypeError ''user.username'')
        | Some usr \<Rightarrow>
            bindM (jwt_sign secret (username usr) (user_id usr)) (\<lambda>token.
            bindM (status 200) (\<lambda>_.
            send (TokenJson token (username usr) (name usr))))))))
       (\<lambda>e. bindM (nextM e) (\<lambda>_. status 400))"

section \<open>The error handler\<close>

text \<open>
  Modelled from the spec: the middleware that turns a forwarded error into a response
  is not among the sources. The spec's error taxonomy maps a validation error and a
  malformed identifier to 400, a bad or missing token to 401, and every other fault to
  500.
\<close>

definition errorHandler :: "error \<Rightarrow> nat" where
  "errorHandler e =
     (case e of
        ValidationError \<Rightarrow> 400
      | CastError \<Rightarrow> 400
      | JsonWebTokenError \<Rightarrow> 401
      | _ \<Rightarrow> 500)"

text \<open>
  The status the client receives: that of the response the handler sent, and otherwise
  the one the error handler gives the forwarded error.
\<close>

definition client_status :: "world \<Rightarrow> nat option" where
  "client_status w =
     (case sent (res w) of
        Some (c, v) \<Rightarrow> Some c
      | None \<Rightarrow> map_option errorHandler (forwarded w))"

section \<open>What the claims speak of\<close>

text \<open>The notes a client gets from \<open>GET /api/notes\<close> on the stored data.\<close>

definition list_result :: "db \<Rightarrow> (Note \<times> (string \<times> string option) option) list" where
  "list_result d =
     (case sent (res (handle notes_get_all d)) of
        Some (c, NoteListJson ns) \<Rightarrow> ns
      | _ \<Rightarrow> [])"

text \<open>
  The invariant of the data model: a stored note has non-empty content and its owner
  reference resolves to a stored user.
\<close>

definition note_ok :: "User list \<Rightarrow> Note \<Rightarrow> bool" where
  "note_ok us n =
     (content n \<noteq> [] \<and>
      (case user n of None \<Rightarrow> False | Some k \<Rightarrow> find (\<lambda>u. user_id u = k) us \<noteq> None))"

definition store_inv :: "db \<Rightarrow> bool" where
  "store_inv d = list_all (note_ok (userStore d)) (noteStore d)"

section \<open>Example data\<close>

text \<open>
  One user and the two initial notes of the test suite; a token verifier that knows a
  token of that user, a token whose user is no longer stored, a token whose id is no
  identifier, a token without an id and a token with an empty id.
\<close>

definition rootUser :: User where
  "rootUser = \<lparr>user_id = 1, username = ''root'', name = None,
                passwordHash = ''hash of secret'', user_notes = []\<rparr>"

definition initialNotes :: "Note list" where
  "initialNotes =
     [\<lparr>note_id = 2, content = ''HTML is easy'', important = Some False, user = Some 1\<rparr>,
      \<lparr>note_id = 3, content = ''Browser can execute only JavaScript'', important = Some True,
        user = Some 1\<rparr>]"

definition exampleDb :: db where
  "exampleDb = \<lparr>noteStore = initialNotes, userStore = [rootUser], lastObjectId = 3\<rparr>"

definition sameContentDb :: db where
  "sameContentDb =
     \<lparr>noteStore =
        [\<lparr>note_id = 2, content = ''HTML is easy'', important = Some False, user = Some 1\<rparr>,
         \<lparr>note_id = 3, content = ''HTML is easy'', important = Some True, user = Some 1\<rparr>],
      userStore = [rootUser], lastObjectId = 3\<rparr>"

definition rootPayload :: token_payload where
  "rootPayload = \<lparr>decoded_username = Some ''root'', decoded_id = Some ''000000000000000000000001''\<rparr>"

definition stalePayload :: token_payload where
  "stalePayload = \<lparr>decoded_username = Some ''gone'', decoded_id = Some ''000000000000000000000009''\<rparr>"

definition malformedPayload :: token_payload where
  "malformedPayload = \<lparr>decoded_username = Some ''root'', decoded_id = Some ''not-an-id''\<rparr>"

definition anonymousPayload :: token_payload where
  "anonymousPayload = \<lparr>decoded_username = Some ''root'', decoded_id = None\<rparr>"

definition emptyIdPayload :: token_payload where
  "emptyIdPayload = \<lparr>decoded_username = Some ''root'', decoded_id = Some []\<rparr>"

definition exampleSecret :: verifier where
  "exampleSecret t =
     (if t = ''root-token'' then Some rootPayload
      else if t = ''stale-token'' then Some stalePayload
      else if t = ''malformed-token'' then Some malformedPayload
      else if t = ''anonymous-token'' then Some anonymousPayload
      else if t = ''empty-id-token'' then Some emptyIdPayload
      else None)"

definition exampleHasher :: hasher where
  "exampleHasher p h = (h = ''hash of '' @ p)"

definition exampleSigner :: signer where
  "exampleSigner un i = Some (un @ ''-token'')"

definition bearer :: "string \<Rightarrow> note_body \<Rightarrow> post_request" where
  "bearer t b = \<lparr>authorization = Some (''Bearer '' @ t), body = b\<rparr>"

definition newNote :: note_body where
  "newNote = \<lparr>body_content = Some ''async/await simplifies making async calls'',
               body_important = JBool True\<rparr>"

definition noContent :: note_body where
  "noContent = \<lparr>body_content = None, body_important = JBool False\<rparr>"

definition plainNote :: note_body where
  "plainNote = \<lparr>body_content = Some ''CSS is hard'', body_important = JUndefined\<rparr>"

definition zeroNote :: note_body where
  "zeroNote = \<lparr>body_content = Some ''CSS is hard'', body_important = JNumber 0\<rparr>"

definition oddNote :: note_body where
  "oddNote = \<lparr>body_content = Some ''CSS is hard'', body_important = JString ''maybe''\<rparr>"

definition emptyContent :: note_body where
  "emptyContent = \<lparr>body_content = Some [], body_important = JUndefined\<rparr>"

definition unknownLogin :: login_body where
  "unknownLogin = \<lparr>body_username = Some ''nobody'', body_password = None\<rparr>"

definition wrongPasswordLogin :: login_body where
  "wrongPasswordLogin = \<lparr>body_username = Some ''root'', body_password = Some ''wrong''\<rparr>"

section \<open>Auxiliary facts\<close>

lemmas io_defs = returnM_def throwM_def bindM_def tryCatch_def status_def json_def send_def
  end_response_def nextM_def fresh_def handle_def emit_def called_def

lemma cast1: "castObjectId ''000000000000000000000001'' = Some 1"
  by code_simp

lemma cast2: "castObjectId ''000000000000000000000002'' = Some 2"
  by code_simp

lemma cast9: "castObjectId ''000000000000000000000009'' = Some 9"
  by code_simp

lemma cast_short: "castObjectId ''5a3d5da59070081a82a3445'' = None"
  by code_simp

lemma cast_twelve: "castObjectId ''abcdefghijkl'' = Some 30138990049255557934854335340"
  by (simp add: castObjectId_def bytesVal_def)

lemma cast_text: "castObjectId ''not-an-id'' = None"
  by code_simp

lemma cast_empty: "castObjectId [] = None"
  by (simp add: castObjectId_def)

lemma cast_nonempty: "castObjectId s = Some k \<Longrightarrow> s \<noteq> []"
  by (auto simp: castObjectId_def)

lemma find_replaceFirst:
  "find p xs = Some x \<Longrightarrow> p y \<Longrightarrow> find p (replaceFirst p y xs) = Some y"
  by (induction xs) (auto split: if_splits)

lemma startsWith_append: "startsWith (pat @ post) pat"
  by (simp add: startsWith_def)

lemma startsWith_length: "startsWith s p \<Longrightarrow> length p \<le> length s"
proof -
  assume "startsWith s p"
  then have "length (take (length p) s) = length p"
    by (simp only: startsWith_def)
  then show ?thesis
    by simp
qed

lemma replace_prefix: "replace (pat @ post) pat rep = rep @ post"
proof (cases "pat @ post")
  case Nil
  then show ?thesis by simp
next
  case (Cons a list)
  have "startsWith (a # list) pat"
    using startsWith_append [of pat post] Cons by simp
  then have "replace (a # list) pat rep = rep @ drop (length pat) (a # list)"
    by simp
  with Cons [symmetric] show ?thesis by simp
qed

lemma replace_first_occurrence:
  "\<forall>j<length pre. \<not> startsWith (drop j (pre @ pat @ post)) pat \<Longrightarrow>
   replace (pre @ pat @ post) pat rep = pre @ rep @ post"
proof (induction pre)
  case Nil
  show ?case
    by (simp add: replace_prefix)
next
  case (Cons c pre)
  from Cons.prems have "\<not> startsWith (drop 0 ((c # pre) @ pat @ post)) pat"
    by blast
  then have here: "\<not> startsWith (c # pre @ pat @ post) pat"
    by simp
  have "\<forall>j<length pre. \<not> startsWith (drop j (pre @ pat @ post)) pat"
  proof (intro allI impI)
    fix j assume "j < length pre"
    then have "Suc j < length (c # pre)" by simp
    with Cons.prems have "\<not> startsWith (drop (Suc j) ((c # pre) @ pat @ post)) pat"
      by blast
    then show "\<not> startsWith (drop j (pre @ pat @ post)) pat" by simp
  qed
  with Cons.IH have "replace (pre @ pat @ post) pat rep = pre @ rep @ post" .
  with here show ?case by simp
qed

lemma replace_no_occurrence:
  "\<forall>j\<le>length s. \<not> startsWith (drop j s) pat \<Longrightarrow> replace s pat rep = s"
proof (induction s)
  case Nil
  then show ?case by (auto simp: startsWith_def)
next
  case (Cons c s)
  from Cons.prems have here: "\<not> startsWith (c # s) pat"
    by (metis drop0 le0)
  have "\<forall>j\<le>length s. \<not> startsWith (drop j s) pat"
  proof (intro allI impI)
    fix j assume "j \<le> length s"
    then have "Suc j \<le> length (c # s)" by simp
    with Cons.prems have "\<not> startsWith (drop (Suc j) (c # s)) pat" by blast
    then show "\<not> startsWith (drop j s) pat" by simp
  qed
  with Cons.IH have "replace s pat rep = s" .
  with here show ?case by simp
qed

lemma removed_absent:
  assumes "distinct (map note_id ns)" and "find (\<lambda>n. note_id n = k) ns = Some n"
  shows "\<forall>m\<in>set (remove1 n ns). note_id m \<noteq> k"
proof
  fix m assume m: "m \<in> set (remove1 n ns)"
  from assms(2) have n: "n \<in> set ns" "note_id n = k"
    by (auto simp: find_Some_iff)
  from assms(1) have d: "distinct ns" and inj: "inj_on note_id (set ns)"
    by (simp_all add: distinct_map)
  from m d have "m \<in> set ns" "m \<noteq> n" by auto
  with inj n show "note_id m \<noteq> k"
    by (auto dest: inj_onD)
qed

lemma list_result_eq: "list_result d = map (populate (userStore d)) (noteStore d)"
  by (simp add: list_result_def notes_get_all_def Note_find_def io_defs)

lemma delete_world:
  "castObjectId i = Some k \<Longrightarrow>
   handle (notes_delete i) d =
     \<lparr>res = \<lparr>statusCode = 204, sent = Some (204, NoBody)\<rparr>,
      store = d\<lparr>noteStore := (case find (\<lambda>n. note_id n = k) (noteStore d) of
                                 None \<Rightarrow> noteStore d | Some n \<Rightarrow> remove1 n (noteStore d))\<rparr>,
      forwarded = None,
      trace = [Called (NoteFindByIdAndRemove i), Responded 204 NoBody]\<rparr>"
  by (simp add: notes_delete_def Note_findByIdAndRemove_def io_defs split: option.splits)

lemma token_of_bearer: "getTokenFrom (bearer t b) = Some t"
  by (simp add: getTokenFrom_def bearer_def startsWith_def)

lemma getTokenFrom_None:
  "authorization request = None \<or> (\<exists>a. authorization request = Some a \<and> \<not> startsWith a ''Bearer'') \<Longrightarrow>
   getTokenFrom request = None"
  by (auto simp: getTokenFrom_def)

lemma getTokenFrom_Some:
  assumes "authorization request = Some a" and "startsWith a ''Bearer''"
  shows "getTokenFrom request = Some (replace a ''Bearer '' [])"
proof -
  from assms(2) have "a \<noteq> []"
    unfolding startsWith_def by (cases a) simp_all
  with assms show ?thesis
    unfolding getTokenFrom_def by simp
qed

lemma new_id_example: "newObjectId exampleDb = 4"
  by (simp add: newObjectId_def exampleDb_def initialNotes_def)

lemma falsy_or_false: "\<not> js_truthy v \<Longrightarrow> js_or v (JBool False) = JBool False"
  by (simp add: js_or_def)

lemma truthy_or_false: "js_truthy v \<Longrightarrow> js_or v (JBool False) = v"
  by (simp add: js_or_def)

section \<open>The claims\<close>

text \<open>
  C1. A note-creation request whose bearer token verifies but whose payload has no user
  id is flagged unauthorized: the response that goes out is 401 with "invalid token".
  The handler does not stop there: its next step is the user lookup with the token's id.
  For an absent id the lookup gives no user, and building the note throws on reading
  \<open>user.id\<close>; the error is passed to \<open>next\<close> and nothing is stored. The flag
  \<open>!decodedToken.id\<close> also holds of an empty id; there the handler continues in the
  same way and the lookup itself throws.
\<close>

theorem create_without_id_continues:
  assumes "getTokenFrom request = Some t" and "secret t = Some p"
    and "\<not> truthy (decoded_id p)"
  shows "sent (res (handle (notes_post secret request) d)) = Some (401, ErrorJson ''invalid token'')
       \<and> store (handle (notes_post secret request) d) = d
       \<and> (decoded_id p = None \<longrightarrow>
            handle (notes_post secret request) d =
              \<lparr>res = \<lparr>statusCode = 401, sent = Some (401, ErrorJson ''invalid token'')\<rparr>,
               store = d, forwarded = Some (TypeError ''user.id''),
               trace = [Called (JwtVerify (Some t)),
                        Responded 401 (ErrorJson ''invalid token''),
                        Called (UserFindById None),
                        Forwarded (TypeError ''user.id'')]\<rparr>)
       \<and> (decoded_id p = Some [] \<longrightarrow>
            handle (notes_post secret request) d =
              \<lparr>res = \<lparr>statusCode = 401, sent = Some (401, ErrorJson ''invalid token'')\<rparr>,
               store = d, forwarded = Some CastError,
               trace = [Called (JwtVerify (Some t)),
                        Responded 401 (ErrorJson ''invalid token''),
                        Called (UserFindById (Some [])),
                        Forwarded CastError]\<rparr>)"
proof -
  from assms(3) have cases: "decoded_id p = None \<or> decoded_id p = Some []"
    by (cases "decoded_id p") (simp_all add: truthy_def)
  have absent: "handle (notes_post secret request) d =
              \<lparr>res = \<lparr>statusCode = 401, sent = Some (401, ErrorJson ''invalid token'')\<rparr>,
               store = d, forwarded = Some (TypeError ''user.id''),
               trace = [Called (JwtVerify (Some t)),
                        Responded 401 (ErrorJson ''invalid token''),
                        Called (UserFindById None),
                        Forwarded (TypeError ''user.id'')]\<rparr>"
    if "decoded_id p = None"
    using assms(1,2) that
    by (simp add: notes_post_def jwt_verify_def truthy_def User_findById_def io_defs)
  have empty: "handle (notes_post secret request) d =
              \<lparr>res = \<lparr>statusCode = 401, sent = Some (401, ErrorJson ''invalid token'')\<rparr>,
               store = d, forwarded = Some CastError,
               trace = [Called (JwtVerify (Some t)),
                        Responded 401 (ErrorJson ''invalid token''),
                        Called (UserFindById (Some [])),
                        Forwarded CastError]\<rparr>"
    if "decoded_id p = Some []"
    using assms(1,2) that
    by (simp add: notes_post_def jwt_verify_def truthy_def User_findById_def io_defs cast_empty)
  from cases have 1: "sent (res (handle (notes_post secret request) d)) =
      Some (401, ErrorJson ''invalid token'')"
    by (auto simp: absent empty)
  from cases have 2: "store (handle (notes_post secret request) d) = d"
    by (auto simp: absent empty)
  show ?thesis
  proof (intro conjI impI)
    show "sent (res (handle (notes_post secret request) d)) = Some (401, ErrorJson ''invalid token'')"
      by (rule 1)
    show "store (handle (notes_post secret request) d) = d"
      by (rule 2)
    assume "decoded_id p = None"
    then show "handle (notes_post secret request) d =
              \<lparr>res = \<lparr>statusCode = 401, sent = Some (401, ErrorJson ''invalid token'')\<rparr>,
               store = d, forwarded = Some (TypeError ''user.id''),
               trace = [Called (JwtVerify (Some t)),
                        Responded 401 (ErrorJson ''invalid token''),
                        Called (UserFindById None),
                        Forwarded (TypeError ''user.id'')]\<rparr>"
      by (rule absent)
  next
    assume "decoded_id p = Some []"
    then show "handle (notes_post secret request) d =
              \<lparr>res = \<lparr>statusCode = 401, sent = Some (401, ErrorJson ''invalid token'')\<rparr>,
               store = d, forwarded = Some CastError,
               trace = [Called (JwtVerify (Some t)),
                        Responded 401 (ErrorJson ''invalid token''),
                        Called (UserFindById (Some [])),
                        Forwarded CastError]\<rparr>"
      by (rule empty)
  qed
qed

theorem create_without_id_continues_witness:
  "getTokenFrom (bearer ''anonymous-token'' newNote) = Some ''anonymous-token''
   \<and> exampleSecret ''anonymous-token'' = Some anonymousPayload
   \<and> decoded_id anonymousPayload = None
   \<and> handle (notes_post exampleSecret (bearer ''anonymous-token'' newNote)) exampleDb =
        \<lparr>res = \<lparr>statusCode = 401, sent = Some (401, ErrorJson ''invalid token'')\<rparr>,
         store = exampleDb, forwarded = Some (TypeError ''user.id''),
         trace = [Called (JwtVerify (Some ''anonymous-token'')),
                  Responded 401 (ErrorJson ''invalid token''),
                  Called (UserFindById None),
                  Forwarded (TypeError ''user.id'')]\<rparr>
   \<and> getTokenFrom (bearer ''empty-id-token'' newNote) = Some ''empty-id-token''
   \<and> exampleSecret ''empty-id-token'' = Some emptyIdPayload
   \<and> decoded_id emptyIdPayload = Some []
   \<and> handle (notes_post exampleSecret (bearer ''empty-id-token'' newNote)) exampleDb =
        \<lparr>res = \<lparr>statusCode = 401, sent = Some (401, ErrorJson ''invalid token'')\<rparr>,
         store = exampleDb, forwarded = Some CastError,
         trace = [Called (JwtVerify (Some ''empty-id-token'')),
                  Responded 401 (ErrorJson ''invalid token''),
                  Called (UserFindById (Some [])),
                  Forwarded CastError]\<rparr>"
proof -
  have a: "getTokenFrom (bearer ''anonymous-token'' newNote) = Some ''anonymous-token''"
    by (rule token_of_bearer)
  have b: "exampleSecret ''anonymous-token'' = Some anonymousPayload"
    by (simp add: exampleSecret_def)
  have c: "decoded_id anonymousPayload = None"
    by (simp add: anonymousPayload_def)
  have c': "\<not> truthy (decoded_id anonymousPayload)"
    by (simp add: c truthy_def)
  have e: "getTokenFrom (bearer ''empty-id-token'' newNote) = Some ''empty-id-token''"
    by (rule token_of_bearer)
  have f: "exampleSecret ''empty-id-token'' = Some emptyIdPayload"
    by (simp add: exampleSecret_def)
  have g: "decoded_id emptyIdPayload = Some []"
    by (simp add: emptyIdPayload_def)
  have g': "\<not> truthy (decoded_id emptyIdPayload)"
    by (simp add: g truthy_def)
  note absent = create_without_id_continues
         [where request = "bearer ''anonymous-token'' newNote" and t = "''anonymous-token''"
            and secret = exampleSecret and p = anonymousPayload and d = exampleDb,
          OF a b c', THEN conjunct2, THEN conjunct2, THEN conjunct1, THEN mp, OF c]
  note empty = create_without_id_continues
         [where request = "bearer ''empty-id-token'' newNote" and t = "''empty-id-token''"
            and secret = exampleSecret and p = emptyIdPayload and d = exampleDb,
          OF e f g', THEN conjunct2, THEN conjunct2, THEN conjunct2, THEN mp, OF g]
  from a b c absent e f g empty show ?thesis
    by (intro conjI)
qed

text \<open>
  C2. The claim: an update whose id is well formed but matches no stored note is answered
  with 404. The update handler has no check for the \<open>null\<close> that
  \<open>findByIdAndUpdate\<close> resolves to, as the get handler has for \<open>findById\<close>: it
  answers 200 with the body \<open>null\<close>. Here on the example data, for an id that no note
  has.
\<close>

theorem update_missing_note_responds_200:
  "castObjectId ''000000000000000000000009'' = Some 9
   \<and> find (\<lambda>n. note_id n = 9) (noteStore exampleDb) = None
   \<and> handle (notes_put ''000000000000000000000009'' newNote) exampleDb =
       \<lparr>res = \<lparr>statusCode = 200, sent = Some (200, NullJson)\<rparr>, store = exampleDb,
        forwarded = None,
        trace = [Called (NoteFindByIdAndUpdate ''000000000000000000000009''
                           \<lparr>upd_content = Some ''async/await simplifies making async calls'',
                            upd_important = JBool True\<rparr>
                           \<lparr>opt_new = True, opt_runValidators = False\<rparr>),
                 Responded 200 NullJson]\<rparr>
   \<and> client_status (handle (notes_put ''000000000000000000000009'' newNote) exampleDb) = Some 200"
  by (simp add: notes_put_def Note_findByIdAndUpdate_def castBoolean_def io_defs cast9
      exampleDb_def initialNotes_def newNote_def client_status_def)

text \<open>
  C3. A login whose username matches no stored user, or whose password the stored hash
  does not match, is answered 401 with the message "username or password is invalid".
  For an absent user the hash comparison is not made: the handler goes from the lookup
  to the 401 without a call to \<open>bcrypt.compare\<close>, and the outcome is the same whatever
  the hash function and whatever the password, also for a password that is
  \<open>undefined\<close>, on which the comparison would reject.
\<close>

theorem login_unauthorized:
  "((body_username b = None \<or> (\<exists>s. body_username b = Some s \<and> find (\<lambda>u. username u = s) (userStore d) = None)) \<longrightarrow>
      handle (login_post cmp secret b) d =
        \<lparr>res = \<lparr>statusCode = 400,
                 sent = Some (401, ErrorMessageJson ''username or password is invalid'')\<rparr>,
         store = d, forwarded = Some (TypeError ''user.username''),
         trace = [Called (UserFindOne (body_username b)),
                  Responded 401 (ErrorMessageJson ''username or password is invalid''),
                  Forwarded (TypeError ''user.username'')]\<rparr>)
   \<and> (body_username b = Some s \<and> find (\<lambda>u. username u = s) (userStore d) = Some usr
        \<and> body_password b = Some p \<and> \<not> cmp p (passwordHash usr) \<longrightarrow>
      sent (res (handle (login_post cmp secret b) d)) =
        Some (401, ErrorMessageJson ''username or password is invalid'')
      \<and> client_status (handle (login_post cmp secret b) d) = Some 401
      \<and> store (handle (login_post cmp secret b) d) = d)"
  by (auto simp add: login_post_def User_findOne_def bcrypt_compare_def jwt_sign_def io_defs
      client_status_def split: option.splits)

theorem login_unauthorized_witness:
  "find (\<lambda>u. username u = ''nobody'') (userStore exampleDb) = None
   \<and> handle (login_post exampleHasher exampleSigner unknownLogin) exampleDb =
        \<lparr>res = \<lparr>statusCode = 400,
                 sent = Some (401, ErrorMessageJson ''username or password is invalid'')\<rparr>,
         store = exampleDb, forwarded = Some (TypeError ''user.username''),
         trace = [Called (UserFindOne (Some ''nobody'')),
                  Responded 401 (ErrorMessageJson ''username or password is invalid''),
                  Forwarded (TypeError ''user.username'')]\<rparr>
   \<and> find (\<lambda>u. username u = ''root'') (userStore exampleDb) = Some rootUser
   \<and> \<not> exampleHasher ''wrong'' (passwordHash rootUser)
   \<and> sent (res (handle (login_post exampleHasher exampleSigner wrongPasswordLogin) exampleDb)) =
        Some (401, ErrorMessageJson ''username or password is invalid'')
   \<and> client_status (handle (login_post exampleHasher exampleSigner wrongPasswordLogin) exampleDb) =
        Some 401"
proof -
  have a: "find (\<lambda>u. username u = ''nobody'') (userStore exampleDb) = None"
    by (simp add: exampleDb_def rootUser_def)
  have b: "find (\<lambda>u. username u = ''root'') (userStore exampleDb) = Some rootUser"
    by (simp add: exampleDb_def rootUser_def)
  have c: "\<not> exampleHasher ''wrong'' (passwordHash rootUser)"
    by (simp add: exampleHasher_def rootUser_def)
  have u: "body_username unknownLogin = Some ''nobody''"
    by (simp add: unknownLogin_def)
  have v: "body_username wrongPasswordLogin = Some ''root''"
       "body_password wrongPasswordLogin = Some ''wrong''"
    by (simp_all add: wrongPasswordLogin_def)
  from a u have h: "body_username unknownLogin = None \<or>
      (\<exists>s. body_username unknownLogin = Some s \<and> find (\<lambda>u. username u = s) (userStore exampleDb) = None)"
    by simp
  note absent = login_unauthorized
         [where b = unknownLogin and d = exampleDb and cmp = exampleHasher
            and secret = exampleSigner, THEN conjunct1, THEN mp, OF h]
  have 1: "handle (login_post exampleHasher exampleSigner unknownLogin) exampleDb =
        \<lparr>res = \<lparr>statusCode = 400,
                 sent = Some (401, ErrorMessageJson ''username or password is invalid'')\<rparr>,
         store = exampleDb, forwarded = Some (TypeError ''user.username''),
         trace = [Called (UserFindOne (Some ''nobody'')),
                  Responded 401 (ErrorMessageJson ''username or password is invalid''),
                  Forwarded (TypeError ''user.username'')]\<rparr>"
    using absent by (simp only: u)
  from b c v have h': "body_username wrongPasswordLogin = Some ''root''
      \<and> find (\<lambda>u. username u = ''root'') (userStore exampleDb) = Some rootUser
      \<and> body_password wrongPasswordLogin = Some ''wrong''
      \<and> \<not> exampleHasher ''wrong'' (passwordHash rootUser)"
    by simp
  note wrong = login_unauthorized
         [where b = wrongPasswordLogin and d = exampleDb and cmp = exampleHasher
            and secret = exampleSigner and s = "''root''" and usr = rootUser and p = "''wrong''",
          THEN conjunct2, THEN mp, OF h']
  from a 1 b c wrong [THEN conjunct1] wrong [THEN conjunct2, THEN conjunct1] show ?thesis
    by (intro conjI)
qed

text \<open>
  C4. The claim: every stored note has non-empty content and an owner that is a stored
  user, and every operation that writes notes keeps it so. Creation validates the note
  when it saves it. The update handler passes \<open>findByIdAndUpdate\<close> the options
  \<open>{new: true}\<close> only, so the update is not validated: on the example data, where the
  invariant holds, an update with the content \<open>""\<close> is answered 200 and leaves a
  stored note with empty content.
\<close>

theorem update_stores_empty_content:
  "store_inv exampleDb
   \<and> castObjectId ''000000000000000000000002'' = Some 2
   \<and> handle (notes_put ''000000000000000000000002'' emptyContent) exampleDb =
       \<lparr>res = \<lparr>statusCode = 200,
                sent = Some (200, NoteJson \<lparr>note_id = 2, content = [], important = Some False,
                                            user = Some 1\<rparr>)\<rparr>,
        store = \<lparr>noteStore =
                   [\<lparr>note_id = 2, content = [], important = Some False, user = Some 1\<rparr>,
                    \<lparr>note_id = 3, content = ''Browser can execute only JavaScript'',
                      important = Some True, user = Some 1\<rparr>],
                 userStore = [rootUser], lastObjectId = 3\<rparr>,
        forwarded = None,
        trace = [Called (NoteFindByIdAndUpdate ''000000000000000000000002''
                           \<lparr>upd_content = Some [], upd_important = JUndefined\<rparr>
                           \<lparr>opt_new = True, opt_runValidators = False\<rparr>),
                 Responded 200 (NoteJson \<lparr>note_id = 2, content = [], important = Some False,
                                          user = Some 1\<rparr>)]\<rparr>
   \<and> \<not> store_inv (store (handle (notes_put ''000000000000000000000002'' emptyContent) exampleDb))"
proof -
  have a: "store_inv exampleDb"
    by (simp add: store_inv_def note_ok_def exampleDb_def initialNotes_def rootUser_def)
  have b: "handle (notes_put ''000000000000000000000002'' emptyContent) exampleDb =
       \<lparr>res = \<lparr>statusCode = 200,
                sent = Some (200, NoteJson \<lparr>note_id = 2, content = [], important = Some False,
                                            user = Some 1\<rparr>)\<rparr>,
        store = \<lparr>noteStore =
                   [\<lparr>note_id = 2, content = [], important = Some False, user = Some 1\<rparr>,
                    \<lparr>note_id = 3, content = ''Browser can execute only JavaScript'',
                      important = Some True, user = Some 1\<rparr>],
                 userStore = [rootUser], lastObjectId = 3\<rparr>,
        forwarded = None,
        trace = [Called (NoteFindByIdAndUpdate ''000000000000000000000002''
                           \<lparr>upd_content = Some [], upd_important = JUndefined\<rparr>
                           \<lparr>opt_new = True, opt_runValidators = False\<rparr>),
                 Responded 200 (NoteJson \<lparr>note_id = 2, content = [], important = Some False,
                                          user = Some 1\<rparr>)]\<rparr>"
    by (simp add: notes_put_def Note_findByIdAndUpdate_def applyUpdate_def castBoolean_def
        io_defs cast2 exampleDb_def initialNotes_def emptyContent_def)
  have c: "\<not> store_inv (store (handle (notes_put ''000000000000000000000002'' emptyContent) exampleDb))"
    unfolding b by (simp add: store_inv_def note_ok_def)
  from a cast2 b c show ?thesis
    by (intro conjI)
qed

text \<open>
  C5, as amended. A note-creation request whose token verifies and carries the id of a
  stored user, with non-empty content and with an \<open>important\<close> field that is absent,
  falsy, or a value that casts to a boolean: the handler resolves that user from the
  token's id, stores a new note with the content and the user as owner, whose importance
  is false when the field is absent or falsy (\<open>undefined\<close>, \<open>null\<close>, \<open>false\<close>,
  \<open>0\<close>, \<open>""\<close>) and is the cast of the field otherwise; it appends the new note's id
  to the user's notes and stores the user; it answers 201 with the note.
\<close>

theorem create_note_success:
  assumes "getTokenFrom request = Some t" and "secret t = Some p"
    and "decoded_id p = Some s" and "castObjectId s = Some k"
    and "find (\<lambda>u. user_id u = k) (userStore d) = Some usr"
    and "body_content (body request) = Some c" and "c \<noteq> []"
    and "if js_truthy (body_important (body request))
         then castBoolean (body_important (body request)) = Inr flag
         else flag = Some False"
    and "doc = \<lparr>doc_content = Some c,
                    doc_important = js_or (body_important (body request)) (JBool False),
                    doc_user = k\<rparr>"
    and "n = \<lparr>note_id = newObjectId d, content = c, important = flag, user = Some k\<rparr>"
    and "usr' = usr\<lparr>user_notes := user_notes usr @ [note_id n]\<rparr>"
  shows "fst (User_findById (decoded_id p) (fresh d)) = Inr (Some usr)
       \<and> handle (notes_post secret request) d =
           \<lparr>res = \<lparr>statusCode = 201, sent = Some (201, NoteJson n)\<rparr>,
            store = \<lparr>noteStore = noteStore d @ [n],
                     userStore = replaceFirst (\<lambda>x. user_id x = k) usr' (userStore d),
                     lastObjectId = note_id n\<rparr>,
            forwarded = None,
            trace = [Called (JwtVerify (Some t)), Called (UserFindById (Some s)),
                     Called (NoteSave doc), Called (UserSave usr'),
                     Responded 201 (NoteJson n)]\<rparr>
       \<and> find (\<lambda>u. user_id u = k) (userStore (store (handle (notes_post secret request) d))) =
           Some usr'
       \<and> (\<not> js_truthy (body_important (body request)) \<longrightarrow> important n = Some False)"
proof -
  from assms(5) have k: "user_id usr = k"
    by (auto simp: find_Some_iff)
  from assms(4) have s: "s \<noteq> []"
    by (rule cast_nonempty)
  have cast: "castBoolean (js_or (body_important (body request)) (JBool False)) = Inr flag"
    using assms(8)
    by (cases "js_truthy (body_important (body request))")
       (simp_all add: js_or_def castBoolean_def)
  have run: "handle (notes_post secret request) d =
           \<lparr>res = \<lparr>statusCode = 201, sent = Some (201, NoteJson n)\<rparr>,
            store = \<lparr>noteStore = noteStore d @ [n],
                     userStore = replaceFirst (\<lambda>x. user_id x = k) usr' (userStore d),
                     lastObjectId = note_id n\<rparr>,
            forwarded = None,
            trace = [Called (JwtVerify (Some t)), Called (UserFindById (Some s)),
                     Called (NoteSave doc), Called (UserSave usr'),
                     Responded 201 (NoteJson n)]\<rparr>"
    using assms(1-7) k s cast unfolding assms(9,10,11)
    by (simp add: notes_post_def jwt_verify_def truthy_def User_findById_def
        Note_save_def User_save_def validContent_def io_defs)
  have "user_id usr' = k"
    using k by (simp add: assms(11))
  with assms(5) have "find (\<lambda>u. user_id u = k) (replaceFirst (\<lambda>x. user_id x = k) usr' (userStore d)) = Some usr'"
    by (rule find_replaceFirst)
  then have stored: "find (\<lambda>u. user_id u = k) (userStore (store (handle (notes_post secret request) d))) = Some usr'"
    by (simp add: run)
  have look: "fst (User_findById (decoded_id p) (fresh d)) = Inr (Some usr)"
    using assms(3-5) by (simp add: User_findById_def io_defs)
  have falsy: "\<not> js_truthy (body_important (body request)) \<longrightarrow> important n = Some False"
    using assms(8) by (simp add: assms(10))
  from look run stored falsy show ?thesis
    by (intro conjI)
qed

theorem create_note_success_witness:
  "getTokenFrom (bearer ''root-token'' newNote) = Some ''root-token''
   \<and> exampleSecret ''root-token'' = Some rootPayload
   \<and> castObjectId ''000000000000000000000001'' = Some 1
   \<and> find (\<lambda>u. user_id u = 1) (userStore exampleDb) = Some rootUser
   \<and> handle (notes_post exampleSecret (bearer ''root-token'' newNote)) exampleDb =
       \<lparr>res = \<lparr>statusCode = 201,
                sent = Some (201, NoteJson \<lparr>note_id = 4,
                   content = ''async/await simplifies making async calls'',
                   important = Some True, user = Some 1\<rparr>)\<rparr>,
        store = \<lparr>noteStore = noteStore exampleDb @
                   [\<lparr>note_id = 4, content = ''async/await simplifies making async calls'',
                     important = Some True, user = Some 1\<rparr>],
                 userStore = [rootUser\<lparr>user_notes := [4]\<rparr>],
                 lastObjectId = 4\<rparr>,
        forwarded = None,
        trace = [Called (JwtVerify (Some ''root-token'')),
                 Called (UserFindById (Some ''000000000000000000000001'')),
                 Called (NoteSave \<lparr>doc_content = Some ''async/await simplifies making async calls'',
                                   doc_important = JBool True, doc_user = 1\<rparr>),
                 Called (UserSave (rootUser\<lparr>user_notes := [4]\<rparr>)),
                 Responded 201 (NoteJson \<lparr>note_id = 4,
                   content = ''async/await simplifies making async calls'',
                   important = Some True, user = Some 1\<rparr>)]\<rparr>
   \<and> sent (res (handle (notes_post exampleSecret (bearer ''root-token'' plainNote)) exampleDb)) =
       Some (201, NoteJson \<lparr>note_id = 4, content = ''CSS is hard'', important = Some False,
                            user = Some 1\<rparr>)
   \<and> sent (res (handle (notes_post exampleSecret (bearer ''root-token'' zeroNote)) exampleDb)) =
       Some (201, NoteJson \<lparr>note_id = 4, content = ''CSS is hard'', important = Some False,
                            user = Some 1\<rparr>)"
proof -
  let ?n = "\<lparr>note_id = 4, content = ''async/await simplifies making async calls'',
             important = Some True, user = Some 1\<rparr>"
  let ?m = "\<lparr>note_id = 4, content = ''CSS is hard'', important = Some False, user = Some 1\<rparr>"
  let ?u = "rootUser\<lparr>user_notes := [4]\<rparr>"
  let ?f = "\<lparr>doc_content = Some ''async/await simplifies making async calls'',
             doc_important = JBool True, doc_user = 1\<rparr>"
  let ?g = "\<lparr>doc_content = Some ''CSS is hard'', doc_important = JBool False, doc_user = 1\<rparr>"
  have h1: "getTokenFrom (bearer ''root-token'' newNote) = Some ''root-token''"
           "getTokenFrom (bearer ''root-token'' plainNote) = Some ''root-token''"
           "getTokenFrom (bearer ''root-token'' zeroNote) = Some ''root-token''"
    by (rule token_of_bearer)+
  have h2: "exampleSecret ''root-token'' = Some rootPayload"
    by (simp add: exampleSecret_def)
  have h3: "decoded_id rootPayload = Some ''000000000000000000000001''"
    by (simp add: rootPayload_def)
  have h5: "find (\<lambda>u. user_id u = 1) (userStore exampleDb) = Some rootUser"
    by (simp add: exampleDb_def rootUser_def)
  have h6: "body_content (body (bearer ''root-token'' newNote)) =
              Some ''async/await simplifies making async calls''"
    by (simp add: bearer_def newNote_def)
  have h6': "body_content (body (bearer ''root-token'' plainNote)) = Some ''CSS is hard''"
            "body_content (body (bearer ''root-token'' zeroNote)) = Some ''CSS is hard''"
    by (simp_all add: bearer_def plainNote_def zeroNote_def)
  have h7: "''async/await simplifies making async calls'' \<noteq> []" "''CSS is hard'' \<noteq> []"
    by simp_all
  have h8: "if js_truthy (body_important (body (bearer ''root-token'' newNote)))
            then castBoolean (body_important (body (bearer ''root-token'' newNote))) = Inr (Some True)
            else Some True = Some False"
    by (simp add: bearer_def newNote_def js_truthy_def castBoolean_def)
  have h8': "if js_truthy (body_important (body (bearer ''root-token'' plainNote)))
            then castBoolean (body_important (body (bearer ''root-token'' plainNote))) = Inr (Some False)
            else Some False = Some False"
    by (simp add: bearer_def plainNote_def js_truthy_def)
  have h8'': "if js_truthy (body_important (body (bearer ''root-token'' zeroNote)))
            then castBoolean (body_important (body (bearer ''root-token'' zeroNote))) = Inr (Some False)
            else Some False = Some False"
    by (simp add: bearer_def zeroNote_def js_truthy_def)
  have h9: "?f = \<lparr>doc_content = Some ''async/await simplifies making async calls'',
                   doc_important = js_or (body_important (body (bearer ''root-token'' newNote)))
                                     (JBool False),
                   doc_user = 1\<rparr>"
    by (simp add: bearer_def newNote_def js_or_def js_truthy_def)
  have h9': "?g = \<lparr>doc_content = Some ''CSS is hard'',
                   doc_important = js_or (body_important (body (bearer ''root-token'' plainNote)))
                                     (JBool False),
                   doc_user = 1\<rparr>"
    by (simp add: bearer_def plainNote_def js_or_def js_truthy_def)
  have h9'': "?g = \<lparr>doc_content = Some ''CSS is hard'',
                   doc_important = js_or (body_important (body (bearer ''root-token'' zeroNote)))
                                     (JBool False),
                   doc_user = 1\<rparr>"
    by (simp add: bearer_def zeroNote_def js_or_def js_truthy_def)
  have h10: "?n = \<lparr>note_id = newObjectId exampleDb,
                    content = ''async/await simplifies making async calls'',
                    important = Some True, user = Some 1\<rparr>"
            "?m = \<lparr>note_id = newObjectId exampleDb, content = ''CSS is hard'',
                    important = Some False, user = Some 1\<rparr>"
    by (simp_all add: new_id_example)
  have h11: "?u = rootUser\<lparr>user_notes := user_notes rootUser @ [note_id ?n]\<rparr>"
            "?u = rootUser\<lparr>user_notes := user_notes rootUser @ [note_id ?m]\<rparr>"
    by (simp_all add: rootUser_def)
  have r: "replaceFirst (\<lambda>x. user_id x = 1) ?u (userStore exampleDb) = [?u]"
    by (simp add: exampleDb_def rootUser_def)
  note true = create_note_success
         [where secret = exampleSecret and d = exampleDb,
          OF h1(1) h2 h3 cast1 h5 h6 h7(1) h8 h9 h10(1) h11(1),
          THEN conjunct2, THEN conjunct1]
  note absent = create_note_success
         [where secret = exampleSecret and d = exampleDb,
          OF h1(2) h2 h3 cast1 h5 h6'(1) h7(2) h8' h9' h10(2) h11(2),
          THEN conjunct2, THEN conjunct1]
  note zero = create_note_success
         [where secret = exampleSecret and d = exampleDb,
          OF h1(3) h2 h3 cast1 h5 h6'(2) h7(2) h8'' h9'' h10(2) h11(2),
          THEN conjunct2, THEN conjunct1]
  have 1: "handle (notes_post exampleSecret (bearer ''root-token'' newNote)) exampleDb =
       \<lparr>res = \<lparr>statusCode = 201, sent = Some (201, NoteJson ?n)\<rparr>,
        store = \<lparr>noteStore = noteStore exampleDb @ [?n], userStore = [?u], lastObjectId = 4\<rparr>,
        forwarded = None,
        trace = [Called (JwtVerify (Some ''root-token'')),
                 Called (UserFindById (Some ''000000000000000000000001'')),
                 Called (NoteSave ?f), Called (UserSave ?u), Responded 201 (NoteJson ?n)]\<rparr>"
    using true by (simp only: r Note.select_convs)
  have 2: "sent (res (handle (notes_post exampleSecret (bearer ''root-token'' plainNote)) exampleDb)) =
       Some (201, NoteJson ?m)"
    using absent by simp
  have 3: "sent (res (handle (notes_post exampleSecret (bearer ''root-token'' zeroNote)) exampleDb)) =
       Some (201, NoteJson ?m)"
    using zero by simp
  from h1(1) h2 cast1 h5 1 2 3 show ?thesis
    by (intro conjI)
qed

text \<open>
  C5 as stated asks only for a valid token that carries a user id, and for non-empty
  content. With the id of a user that is not stored the request is not answered 201 and
  no note is stored. With a truthy \<open>important\<close> that does not cast to a boolean the note
  fails validation: no note is stored either, and the answer is 400.
\<close>

theorem create_note_counterexample:
  "getTokenFrom (bearer ''stale-token'' newNote) = Some ''stale-token''
   \<and> exampleSecret ''stale-token'' = Some stalePayload
   \<and> decoded_id stalePayload = Some ''000000000000000000000009''
   \<and> body_content (body (bearer ''stale-token'' newNote)) =
        Some ''async/await simplifies making async calls''
   \<and> handle (notes_post exampleSecret (bearer ''stale-token'' newNote)) exampleDb =
        \<lparr>res = \<lparr>statusCode = 200, sent = None\<rparr>, store = exampleDb,
         forwarded = Some (TypeError ''user.id''),
         trace = [Called (JwtVerify (Some ''stale-token'')),
                  Called (UserFindById (Some ''000000000000000000000009'')),
                  Forwarded (TypeError ''user.id'')]\<rparr>
   \<and> client_status (handle (notes_post exampleSecret (bearer ''stale-token'' newNote)) exampleDb)
        \<noteq> Some 201
   \<and> getTokenFrom (bearer ''root-token'' oddNote) = Some ''root-token''
   \<and> exampleSecret ''root-token'' = Some rootPayload
   \<and> find (\<lambda>u. user_id u = 1) (userStore exampleDb) = Some rootUser
   \<and> body_content (body (bearer ''root-token'' oddNote)) = Some ''CSS is hard''
   \<and> body_important (body (bearer ''root-token'' oddNote)) = JString ''maybe''
   \<and> handle (notes_post exampleSecret (bearer ''root-token'' oddNote)) exampleDb =
        \<lparr>res = \<lparr>statusCode = 200, sent = None\<rparr>, store = exampleDb,
         forwarded = Some ValidationError,
         trace = [Called (JwtVerify (Some ''root-token'')),
                  Called (UserFindById (Some ''000000000000000000000001'')),
                  Called (NoteSave \<lparr>doc_content = Some ''CSS is hard'',
                                    doc_important = JString ''maybe'', doc_user = 1\<rparr>),
                  Forwarded ValidationError]\<rparr>
   \<and> client_status (handle (notes_post exampleSecret (bearer ''root-token'' oddNote)) exampleDb)
        = Some 400"
proof -
  have a: "getTokenFrom (bearer ''stale-token'' newNote) = Some ''stale-token''"
    by (rule token_of_bearer)
  have b: "exampleSecret ''stale-token'' = Some stalePayload"
    by (simp add: exampleSecret_def)
  have c: "decoded_id stalePayload = Some ''000000000000000000000009''"
    by (simp add: stalePayload_def)
  have d: "body_content (body (bearer ''stale-token'' newNote)) =
        Some ''async/await simplifies making async calls''"
    by (simp add: bearer_def newNote_def)
  have e: "handle (notes_post exampleSecret (bearer ''stale-token'' newNote)) exampleDb =
        \<lparr>res = \<lparr>statusCode = 200, sent = None\<rparr>, store = exampleDb,
         forwarded = Some (TypeError ''user.id''),
         trace = [Called (JwtVerify (Some ''stale-token'')),
                  Called (UserFindById (Some ''000000000000000000000009'')),
                  Forwarded (TypeError ''user.id'')]\<rparr>"
    by (simp add: notes_post_def jwt_verify_def truthy_def User_findById_def
        io_defs a b c cast9 exampleDb_def rootUser_def)
  have f: "client_status (handle (notes_post exampleSecret (bearer ''stale-token'' newNote)) exampleDb)
        \<noteq> Some 201"
    unfolding e by (simp add: client_status_def errorHandler_def)
  have a': "getTokenFrom (bearer ''root-token'' oddNote) = Some ''root-token''"
    by (rule token_of_bearer)
  have b': "exampleSecret ''root-token'' = Some rootPayload"
    by (simp add: exampleSecret_def)
  have c': "decoded_id rootPayload = Some ''000000000000000000000001''"
    by (simp add: rootPayload_def)
  have u: "find (\<lambda>u. user_id u = 1) (userStore exampleDb) = Some rootUser"
    by (simp add: exampleDb_def rootUser_def)
  have d': "body_content (body (bearer ''root-token'' oddNote)) = Some ''CSS is hard''"
           "body_important (body (bearer ''root-token'' oddNote)) = JString ''maybe''"
    by (simp_all add: bearer_def oddNote_def)
  have i: "user_id rootUser = 1"
    by (simp add: rootUser_def)
  have e': "handle (notes_post exampleSecret (bearer ''root-token'' oddNote)) exampleDb =
        \<lparr>res = \<lparr>statusCode = 200, sent = None\<rparr>, store = exampleDb,
         forwarded = Some ValidationError,
         trace = [Called (JwtVerify (Some ''root-token'')),
                  Called (UserFindById (Some ''000000000000000000000001'')),
                  Called (NoteSave \<lparr>doc_content = Some ''CSS is hard'',
                                    doc_important = JString ''maybe'', doc_user = 1\<rparr>),
                  Forwarded ValidationError]\<rparr>"
    by (simp add: notes_post_def jwt_verify_def truthy_def User_findById_def Note_save_def
        castBoolean_def js_or_def js_truthy_def io_defs a' b' c' cast1 d'
        exampleDb_def rootUser_def)
  have f': "client_status (handle (notes_post exampleSecret (bearer ''root-token'' oddNote)) exampleDb)
        = Some 400"
    unfolding e' by (simp add: client_status_def errorHandler_def)
  from a b c d e f a' b' u d' e' f' show ?thesis
    by (intro conjI)
qed

text \<open>
  C6, as amended. A note-creation request without content never changes the stored notes
  or users and is never answered 201. When its token verifies and carries the id of a
  stored user, saving the note fails validation: the validation error goes to the error
  handler, which answers 400.
\<close>

theorem create_without_content:
  assumes "body_content (body request) = None"
  shows "store (handle (notes_post secret request) d) = d
       \<and> sent (res (handle (notes_post secret request) d)) \<noteq>
           Some (201, v)
       \<and> (getTokenFrom request = Some t \<and> secret t = Some p \<and> decoded_id p = Some s
            \<and> castObjectId s = Some k \<and> find (\<lambda>u. user_id u = k) (userStore d) = Some usr \<longrightarrow>
          handle (notes_post secret request) d =
            \<lparr>res = \<lparr>statusCode = 200, sent = None\<rparr>, store = d, forwarded = Some ValidationError,
             trace = [Called (JwtVerify (Some t)), Called (UserFindById (Some s)),
                      Called (NoteSave \<lparr>doc_content = None,
                                doc_important = js_or (body_important (body request)) (JBool False),
                                doc_user = k\<rparr>),
                      Forwarded ValidationError]\<rparr>
          \<and> client_status (handle (notes_post secret request) d) = Some 400)"
proof (intro conjI impI)
  show "store (handle (notes_post secret request) d) = d"
    using assms
    by (simp add: notes_post_def jwt_verify_def User_findById_def
        Note_save_def io_defs split: option.splits sum.splits)
  show "sent (res (handle (notes_post secret request) d)) \<noteq> Some (201, v)"
    using assms
    by (simp add: notes_post_def jwt_verify_def User_findById_def
        Note_save_def io_defs split: option.splits sum.splits)
next
  assume h: "getTokenFrom request = Some t \<and> secret t = Some p \<and> decoded_id p = Some s
            \<and> castObjectId s = Some k \<and> find (\<lambda>u. user_id u = k) (userStore d) = Some usr"
  then have "s \<noteq> []"
    by (auto simp: castObjectId_def)
  moreover from h have "user_id usr = k"
    by (auto simp: find_Some_iff)
  ultimately show run: "handle (notes_post secret request) d =
            \<lparr>res = \<lparr>statusCode = 200, sent = None\<rparr>, store = d, forwarded = Some ValidationError,
             trace = [Called (JwtVerify (Some t)), Called (UserFindById (Some s)),
                      Called (NoteSave \<lparr>doc_content = None,
                                doc_important = js_or (body_important (body request)) (JBool False),
                                doc_user = k\<rparr>),
                      Forwarded ValidationError]\<rparr>"
    using h assms
    by (simp add: notes_post_def jwt_verify_def truthy_def User_findById_def
        Note_save_def io_defs split: sum.splits)
  show "client_status (handle (notes_post secret request) d) = Some 400"
    by (simp add: run client_status_def errorHandler_def)
qed

theorem create_without_content_witness:
  "body_content (body (bearer ''root-token'' noContent)) = None
   \<and> getTokenFrom (bearer ''root-token'' noContent) = Some ''root-token''
   \<and> exampleSecret ''root-token'' = Some rootPayload
   \<and> find (\<lambda>u. user_id u = 1) (userStore exampleDb) = Some rootUser
   \<and> handle (notes_post exampleSecret (bearer ''root-token'' noContent)) exampleDb =
        \<lparr>res = \<lparr>statusCode = 200, sent = None\<rparr>, store = exampleDb,
         forwarded = Some ValidationError,
         trace = [Called (JwtVerify (Some ''root-token'')),
                  Called (UserFindById (Some ''000000000000000000000001'')),
                  Called (NoteSave \<lparr>doc_content = None, doc_important = JBool False,
                                    doc_user = 1\<rparr>),
                  Forwarded ValidationError]\<rparr>
   \<and> client_status (handle (notes_post exampleSecret (bearer ''root-token'' noContent)) exampleDb) =
        Some 400"
proof -
  have h0: "body_content (body (bearer ''root-token'' noContent)) = None"
    by (simp add: bearer_def noContent_def)
  have h1: "getTokenFrom (bearer ''root-token'' noContent) = Some ''root-token''"
    by (rule token_of_bearer)
  have h2: "exampleSecret ''root-token'' = Some rootPayload"
    by (simp add: exampleSecret_def)
  have h3: "decoded_id rootPayload = Some ''000000000000000000000001''"
    by (simp add: rootPayload_def)
  have h5: "find (\<lambda>u. user_id u = 1) (userStore exampleDb) = Some rootUser"
    by (simp add: exampleDb_def rootUser_def)
  from h1 h2 h3 cast1 h5
  have h: "getTokenFrom (bearer ''root-token'' noContent) = Some ''root-token''
      \<and> exampleSecret ''root-token'' = Some rootPayload
      \<and> decoded_id rootPayload = Some ''000000000000000000000001''
      \<and> castObjectId ''000000000000000000000001'' = Some 1
      \<and> find (\<lambda>u. user_id u = 1) (userStore exampleDb) = Some rootUser"
    by (intro conjI)
  have j: "js_or (body_important (body (bearer ''root-token'' noContent))) (JBool False) =
           JBool False"
    by (simp add: bearer_def noContent_def js_or_def)
  note run = create_without_content
         [where request = "bearer ''root-token'' noContent" and secret = exampleSecret
            and d = exampleDb, OF h0, THEN conjunct2, THEN conjunct2, THEN mp, OF h]
  have 1: "handle (notes_post exampleSecret (bearer ''root-token'' noContent)) exampleDb =
        \<lparr>res = \<lparr>statusCode = 200, sent = None\<rparr>, store = exampleDb,
         forwarded = Some ValidationError,
         trace = [Called (JwtVerify (Some ''root-token'')),
                  Called (UserFindById (Some ''000000000000000000000001'')),
                  Called (NoteSave \<lparr>doc_content = None, doc_important = JBool False,
                                    doc_user = 1\<rparr>),
                  Forwarded ValidationError]\<rparr>"
    using run [THEN conjunct1] by (simp only: j)
  from h0 h1 h2 h5 1 run [THEN conjunct2] show ?thesis
    by (intro conjI)
qed

text \<open>
  C6 as stated promises the validation error and 400 for every request without content.
  The token is checked first: without an authorization header the error is the token
  error, which the error handler answers with 401.
\<close>

theorem create_without_content_counterexample:
  "body_content (body \<lparr>authorization = None, body = noContent\<rparr>) = None
   \<and> handle (notes_post exampleSecret \<lparr>authorization = None, body = noContent\<rparr>) exampleDb =
        \<lparr>res = \<lparr>statusCode = 200, sent = None\<rparr>, store = exampleDb,
         forwarded = Some JsonWebTokenError,
         trace = [Called (JwtVerify None), Forwarded JsonWebTokenError]\<rparr>
   \<and> forwarded (handle (notes_post exampleSecret \<lparr>authorization = None, body = noContent\<rparr>)
                   exampleDb) \<noteq> Some ValidationError
   \<and> client_status (handle (notes_post exampleSecret \<lparr>authorization = None, body = noContent\<rparr>)
                   exampleDb) = Some 401"
proof -
  have a: "body_content (body \<lparr>authorization = None, body = noContent\<rparr>) = None"
    by (simp add: noContent_def)
  have b: "handle (notes_post exampleSecret \<lparr>authorization = None, body = noContent\<rparr>) exampleDb =
        \<lparr>res = \<lparr>statusCode = 200, sent = None\<rparr>, store = exampleDb,
         forwarded = Some JsonWebTokenError,
         trace = [Called (JwtVerify None), Forwarded JsonWebTokenError]\<rparr>"
    by (simp add: notes_post_def jwt_verify_def getTokenFrom_def io_defs)
  have c: "forwarded (handle (notes_post exampleSecret \<lparr>authorization = None, body = noContent\<rparr>)
                   exampleDb) \<noteq> Some ValidationError"
    unfolding b by simp
  have d: "client_status (handle (notes_post exampleSecret \<lparr>authorization = None, body = noContent\<rparr>)
                   exampleDb) = Some 401"
    unfolding b by (simp add: client_status_def errorHandler_def)
  from a b c d show ?thesis
    by (intro conjI)
qed

text \<open>
  C7. Get by id: an id in valid format (24 hexadecimal digits, or 12 characters) of a
  stored note is answered 200 with the note; an id in valid format that no note has is
  answered 404; any other id makes the lookup throw the cast error, which goes to the
  error handler and becomes 400, not 404 and not 500.
\<close>

theorem get_by_id:
  "(castObjectId i = Some k \<and> find (\<lambda>n. note_id n = k) (noteStore d) = Some n \<longrightarrow>
      handle (notes_get i) d =
        \<lparr>res = \<lparr>statusCode = 200, sent = Some (200, NoteJson n)\<rparr>, store = d, forwarded = None,
         trace = [Called (NoteFindById i), Responded 200 (NoteJson n)]\<rparr>)
   \<and> (castObjectId i = Some k \<and> find (\<lambda>n. note_id n = k) (noteStore d) = None \<longrightarrow>
      handle (notes_get i) d =
        \<lparr>res = \<lparr>statusCode = 404, sent = Some (404, NoBody)\<rparr>, store = d, forwarded = None,
         trace = [Called (NoteFindById i), Responded 404 NoBody]\<rparr>)
   \<and> (castObjectId i = None \<longrightarrow>
      handle (notes_get i) d =
        \<lparr>res = \<lparr>statusCode = 200, sent = None\<rparr>, store = d, forwarded = Some CastError,
         trace = [Called (NoteFindById i), Forwarded CastError]\<rparr>
      \<and> client_status (handle (notes_get i) d) = Some 400
      \<and> client_status (handle (notes_get i) d) \<noteq> Some 404
      \<and> client_status (handle (notes_get i) d) \<noteq> Some 500)"
  by (simp add: notes_get_def Note_findById_def io_defs client_status_def errorHandler_def)

theorem get_by_id_witness:
  "castObjectId ''000000000000000000000002'' = Some 2
   \<and> handle (notes_get ''000000000000000000000002'') exampleDb =
        \<lparr>res = \<lparr>statusCode = 200,
                 sent = Some (200, NoteJson \<lparr>note_id = 2, content = ''HTML is easy'',
                                             important = Some False, user = Some 1\<rparr>)\<rparr>,
         store = exampleDb, forwarded = None,
         trace = [Called (NoteFindById ''000000000000000000000002''),
                  Responded 200 (NoteJson \<lparr>note_id = 2, content = ''HTML is easy'',
                                           important = Some False, user = Some 1\<rparr>)]\<rparr>
   \<and> castObjectId ''000000000000000000000009'' = Some 9
   \<and> handle (notes_get ''000000000000000000000009'') exampleDb =
        \<lparr>res = \<lparr>statusCode = 404, sent = Some (404, NoBody)\<rparr>, store = exampleDb,
         forwarded = None,
         trace = [Called (NoteFindById ''000000000000000000000009''), Responded 404 NoBody]\<rparr>
   \<and> castObjectId ''abcdefghijkl'' = Some 30138990049255557934854335340
   \<and> handle (notes_get ''abcdefghijkl'') exampleDb =
        \<lparr>res = \<lparr>statusCode = 404, sent = Some (404, NoBody)\<rparr>, store = exampleDb,
         forwarded = None,
         trace = [Called (NoteFindById ''abcdefghijkl''), Responded 404 NoBody]\<rparr>
   \<and> castObjectId ''5a3d5da59070081a82a3445'' = None
   \<and> client_status (handle (notes_get ''5a3d5da59070081a82a3445'') exampleDb) = Some 400"
proof -
  let ?n = "\<lparr>note_id = 2, content = ''HTML is easy'', important = Some False, user = Some 1\<rparr>"
  have a: "castObjectId ''000000000000000000000002'' = Some 2
           \<and> find (\<lambda>n. note_id n = 2) (noteStore exampleDb) = Some ?n"
    by (simp add: cast2 exampleDb_def initialNotes_def)
  have b: "castObjectId ''000000000000000000000009'' = Some 9
           \<and> find (\<lambda>n. note_id n = 9) (noteStore exampleDb) = None"
    by (simp add: cast9 exampleDb_def initialNotes_def)
  have c: "castObjectId ''abcdefghijkl'' = Some 30138990049255557934854335340
           \<and> find (\<lambda>n. note_id n = 30138990049255557934854335340) (noteStore exampleDb) = None"
    by (simp add: cast_twelve exampleDb_def initialNotes_def)
  note 1 = get_by_id [where d = exampleDb, THEN conjunct1, THEN mp, OF a]
  note 2 = get_by_id [where d = exampleDb, THEN conjunct2, THEN conjunct1, THEN mp, OF b]
  note 3 = get_by_id [where d = exampleDb, THEN conjunct2, THEN conjunct1, THEN mp, OF c]
  note 4 = get_by_id [where d = exampleDb, THEN conjunct2, THEN conjunct2, THEN mp,
                      OF cast_short, THEN conjunct2, THEN conjunct1]
  from cast2 1 cast9 2 cast_twelve 3 cast_short 4 show ?thesis
    by (intro conjI)
qed

text \<open>
  C8, as amended. For a well-formed id, and a store whose notes have distinct ids, delete
  answers 204 whether or not a note has the id. Afterwards no note of the list result
  has the id; the deleted note's content is absent from the list result when no other
  stored note has the same content; and a second delete of the id gives the same answer
  and the same store as the first.
\<close>

theorem delete_removes_note:
  assumes "castObjectId i = Some k" and "distinct (map note_id (noteStore d))"
  shows "sent (res (handle (notes_delete i) d)) = Some (204, NoBody)
       \<and> forwarded (handle (notes_delete i) d) = None
       \<and> (\<forall>e\<in>set (list_result (store (handle (notes_delete i) d))). note_id (fst e) \<noteq> k)
       \<and> (find (\<lambda>n. note_id n = k) (noteStore d) = Some n
            \<and> (\<forall>m\<in>set (noteStore d). note_id m \<noteq> k \<longrightarrow> content m \<noteq> content n) \<longrightarrow>
          content n \<notin> set (map (\<lambda>e. content (fst e)) (list_result (store (handle (notes_delete i) d)))))
       \<and> handle (notes_delete i) (store (handle (notes_delete i) d)) = handle (notes_delete i) d"
proof -
  let ?ns = "noteStore d"
  let ?ns' = "case find (\<lambda>n. note_id n = k) ?ns of None \<Rightarrow> ?ns | Some n \<Rightarrow> remove1 n ?ns"
  have w: "handle (notes_delete i) d =
     \<lparr>res = \<lparr>statusCode = 204, sent = Some (204, NoBody)\<rparr>,
      store = d\<lparr>noteStore := ?ns'\<rparr>, forwarded = None,
      trace = [Called (NoteFindByIdAndRemove i), Responded 204 NoBody]\<rparr>"
    using assms(1) by (rule delete_world)
  have gone: "\<forall>m\<in>set ?ns'. note_id m \<noteq> k"
  proof (cases "find (\<lambda>n. note_id n = k) ?ns")
    case None
    then have "\<forall>m\<in>set ?ns. note_id m \<noteq> k"
      by (simp add: find_None_iff)
    with None show ?thesis
      by simp
  next
    case (Some n0)
    with assms(2) have "\<forall>m\<in>set (remove1 n0 ?ns). note_id m \<noteq> k"
      by (rule removed_absent)
    with Some show ?thesis
      by simp
  qed
  have listed: "map fst (list_result (store (handle (notes_delete i) d))) = ?ns'"
    by (simp add: w list_result_eq populate_def comp_def)
  have 1: "sent (res (handle (notes_delete i) d)) = Some (204, NoBody)"
    by (simp add: w)
  have 2: "forwarded (handle (notes_delete i) d) = None"
    by (simp add: w)
  have 3: "\<forall>e\<in>set (list_result (store (handle (notes_delete i) d))). note_id (fst e) \<noteq> k"
  proof
    fix e assume "e \<in> set (list_result (store (handle (notes_delete i) d)))"
    then have "fst e \<in> set (map fst (list_result (store (handle (notes_delete i) d))))"
      by simp
    with listed gone show "note_id (fst e) \<noteq> k"
      by simp
  qed
  have 4: "find (\<lambda>n. note_id n = k) (noteStore d) = Some n
            \<and> (\<forall>m\<in>set (noteStore d). note_id m \<noteq> k \<longrightarrow> content m \<noteq> content n) \<longrightarrow>
          content n \<notin> set (map (\<lambda>e. content (fst e)) (list_result (store (handle (notes_delete i) d))))"
  proof (intro impI notI)
    assume h: "find (\<lambda>n. note_id n = k) (noteStore d) = Some n
            \<and> (\<forall>m\<in>set (noteStore d). note_id m \<noteq> k \<longrightarrow> content m \<noteq> content n)"
    assume "content n \<in> set (map (\<lambda>e. content (fst e)) (list_result (store (handle (notes_delete i) d))))"
    then have "content n \<in> content ` set (map fst (list_result (store (handle (notes_delete i) d))))"
      by (auto simp: image_iff)
    then obtain m where m: "m \<in> set ?ns'" "content m = content n"
      unfolding listed by auto
    from h have "?ns' = remove1 n ?ns"
      by simp
    with m(1) have "m \<in> set (remove1 n ?ns)"
      by simp
    then have "m \<in> set ?ns"
      using set_remove1_subset [of n ?ns] by blast
    moreover from m(1) gone have "note_id m \<noteq> k"
      by blast
    ultimately have "content m \<noteq> content n"
      using h by blast
    with m(2) show False
      by simp
  qed
  have none: "find (\<lambda>n. note_id n = k) ?ns' = None"
    using gone by (simp add: find_None_iff)
  have 5: "handle (notes_delete i) (store (handle (notes_delete i) d)) = handle (notes_delete i) d"
    using none by (simp add: w delete_world [OF assms(1)])
  from 1 2 3 4 5 show ?thesis
    by (intro conjI)
qed

theorem delete_removes_note_witness:
  "castObjectId ''000000000000000000000002'' = Some 2
   \<and> distinct (map note_id (noteStore exampleDb))
   \<and> sent (res (handle (notes_delete ''000000000000000000000002'') exampleDb)) = Some (204, NoBody)
   \<and> ''HTML is easy'' \<notin> set (map (\<lambda>e. content (fst e))
         (list_result (store (handle (notes_delete ''000000000000000000000002'') exampleDb))))
   \<and> handle (notes_delete ''000000000000000000000002'')
         (store (handle (notes_delete ''000000000000000000000002'') exampleDb)) =
       handle (notes_delete ''000000000000000000000002'') exampleDb
   \<and> castObjectId ''000000000000000000000009'' = Some 9
   \<and> sent (res (handle (notes_delete ''000000000000000000000009'') exampleDb)) = Some (204, NoBody)"
proof -
  let ?n = "\<lparr>note_id = 2, content = ''HTML is easy'', important = Some False, user = Some 1\<rparr>"
  have dist: "distinct (map note_id (noteStore exampleDb))"
    by (simp add: exampleDb_def initialNotes_def)
  have a: "find (\<lambda>n. note_id n = 2) (noteStore exampleDb) = Some ?n"
    by (simp add: exampleDb_def initialNotes_def)
  have b: "\<forall>m\<in>set (noteStore exampleDb). note_id m \<noteq> 2 \<longrightarrow> content m \<noteq> content ?n"
    by (simp add: exampleDb_def initialNotes_def)
  note two = delete_removes_note [where d = exampleDb and n = ?n, OF cast2 dist]
  note nine = delete_removes_note [where d = exampleDb, OF cast9 dist]
  note 1 = two [THEN conjunct1]
  from a b have ab: "find (\<lambda>n. note_id n = 2) (noteStore exampleDb) = Some ?n
      \<and> (\<forall>m\<in>set (noteStore exampleDb). note_id m \<noteq> 2 \<longrightarrow> content m \<noteq> content ?n)"
    by (intro conjI)
  from two [THEN conjunct2, THEN conjunct2, THEN conjunct2, THEN conjunct1, THEN mp, OF ab]
  have 2: "''HTML is easy'' \<notin> set (map (\<lambda>e. content (fst e))
         (list_result (store (handle (notes_delete ''000000000000000000000002'') exampleDb))))"
    by simp
  note 3 = two [THEN conjunct2, THEN conjunct2, THEN conjunct2, THEN conjunct2]
  note 4 = nine [THEN conjunct1]
  from cast2 dist 1 2 3 cast9 4 show ?thesis
    by (intro conjI)
qed

text \<open>
  C8 as stated says the deleted note's content is absent from the list result. Content is
  not unique: when another note has the same content, the content is still listed.
\<close>

theorem delete_removes_note_counterexample:
  "castObjectId ''000000000000000000000002'' = Some 2
   \<and> find (\<lambda>n. note_id n = 2) (noteStore sameContentDb) =
       Some \<lparr>note_id = 2, content = ''HTML is easy'', important = Some False, user = Some 1\<rparr>
   \<and> sent (res (handle (notes_delete ''000000000000000000000002'') sameContentDb)) =
       Some (204, NoBody)
   \<and> ''HTML is easy'' \<in> set (map (\<lambda>e. content (fst e))
         (list_result (store (handle (notes_delete ''000000000000000000000002'') sameContentDb))))"
proof -
  have a: "find (\<lambda>n. note_id n = 2) (noteStore sameContentDb) =
       Some \<lparr>note_id = 2, content = ''HTML is easy'', important = Some False, user = Some 1\<rparr>"
    by (simp add: sameContentDb_def)
  have w: "handle (notes_delete ''000000000000000000000002'') sameContentDb =
     \<lparr>res = \<lparr>statusCode = 204, sent = Some (204, NoBody)\<rparr>,
      store = sameContentDb\<lparr>noteStore :=
                [\<lparr>note_id = 3, content = ''HTML is easy'', important = Some True, user = Some 1\<rparr>]\<rparr>,
      forwarded = None,
      trace = [Called (NoteFindByIdAndRemove ''000000000000000000000002''), Responded 204 NoBody]\<rparr>"
    by (simp add: delete_world [OF cast2] a) (simp add: sameContentDb_def)
  have b: "sent (res (handle (notes_delete ''000000000000000000000002'') sameContentDb)) =
       Some (204, NoBody)"
    by (simp add: w)
  have c: "''HTML is easy'' \<in> set (map (\<lambda>e. content (fst e))
         (list_result (store (handle (notes_delete ''000000000000000000000002'') sameContentDb))))"
    by (simp add: w list_result_eq populate_def)
  from cast2 a b c show ?thesis
    by (intro conjI)
qed

text \<open>
  C9, as amended. A note-creation request whose token verifies and carries a user id that
  matches no stored user: nothing is stored, an error is passed to the error handler, and
  the request is not answered 201. When the id is in valid format the user lookup gives
  \<open>null\<close> and reading \<open>user.id\<close> throws the error; when the id is malformed the lookup
  itself throws it.
\<close>

theorem create_for_missing_user:
  assumes "getTokenFrom request = Some t" and "secret t = Some p"
    and "decoded_id p = Some s"
    and "\<forall>u\<in>set (userStore d). castObjectId s \<noteq> Some (user_id u)"
  shows "store (handle (notes_post secret request) d) = d
       \<and> forwarded (handle (notes_post secret request) d) \<noteq> None
       \<and> sent (res (handle (notes_post secret request) d)) \<noteq> Some (201, v)
       \<and> client_status (handle (notes_post secret request) d) \<noteq> Some 201
       \<and> (castObjectId s = Some k \<longrightarrow>
            fst (User_findById (decoded_id p) (fresh d)) = Inr None
            \<and> handle (notes_post secret request) d =
                \<lparr>res = \<lparr>statusCode = 200, sent = None\<rparr>, store = d,
                 forwarded = Some (TypeError ''user.id''),
                 trace = [Called (JwtVerify (Some t)), Called (UserFindById (Some s)),
                          Forwarded (TypeError ''user.id'')]\<rparr>)
       \<and> (castObjectId s = None \<longrightarrow>
            fst (User_findById (decoded_id p) (fresh d)) = Inl CastError
            \<and> forwarded (handle (notes_post secret request) d) = Some CastError)"
proof -
  have valid: "fst (User_findById (decoded_id p) (fresh d)) = Inr None
            \<and> handle (notes_post secret request) d =
                \<lparr>res = \<lparr>statusCode = 200, sent = None\<rparr>, store = d,
                 forwarded = Some (TypeError ''user.id''),
                 trace = [Called (JwtVerify (Some t)), Called (UserFindById (Some s)),
                          Forwarded (TypeError ''user.id'')]\<rparr>"
    if k: "castObjectId s = Some k" for k
  proof -
    from assms(4) k have "\<forall>u\<in>set (userStore d). user_id u \<noteq> k"
      by auto
    then have none: "find (\<lambda>u. user_id u = k) (userStore d) = None"
      by (simp add: find_None_iff)
    from k have "s \<noteq> []"
      by (rule cast_nonempty)
    with assms(1-3) k none show ?thesis
      by (simp add: notes_post_def jwt_verify_def truthy_def User_findById_def io_defs)
  qed
  have lookup: "fst (User_findById (decoded_id p) (fresh d)) = Inl CastError"
    if "castObjectId s = None"
    using assms(3) that by (simp add: User_findById_def io_defs)
  have malformed: "forwarded (handle (notes_post secret request) d) = Some CastError
            \<and> store (handle (notes_post secret request) d) = d
            \<and> sent (res (handle (notes_post secret request) d)) \<noteq> Some (201, v)
            \<and> client_status (handle (notes_post secret request) d) \<noteq> Some 201"
    if none: "castObjectId s = None"
  proof (cases "s = []")
    case True
    with assms(1-3) show ?thesis
      by (simp add: notes_post_def jwt_verify_def truthy_def User_findById_def io_defs
          client_status_def cast_empty)
  next
    case False
    with assms(1-3) none show ?thesis
      by (simp add: notes_post_def jwt_verify_def truthy_def User_findById_def io_defs
          client_status_def errorHandler_def)
  qed
  show ?thesis
  proof (cases "castObjectId s")
    case None
    from malformed [OF None] lookup [OF None] None show ?thesis
      by simp
  next
    case (Some k')
    from valid [OF Some] have w: "handle (notes_post secret request) d =
                \<lparr>res = \<lparr>statusCode = 200, sent = None\<rparr>, store = d,
                 forwarded = Some (TypeError ''user.id''),
                 trace = [Called (JwtVerify (Some t)), Called (UserFindById (Some s)),
                          Forwarded (TypeError ''user.id'')]\<rparr>"
      and l: "fst (User_findById (decoded_id p) (fresh d)) = Inr None"
      by simp_all
    have c: "client_status (handle (notes_post secret request) d) \<noteq> Some 201"
      unfolding w by (simp add: client_status_def errorHandler_def)
    show ?thesis
    proof (intro conjI impI)
      show "store (handle (notes_post secret request) d) = d"
        by (simp add: w)
      show "forwarded (handle (notes_post secret request) d) \<noteq> None"
        by (simp add: w)
      show "sent (res (handle (notes_post secret request) d)) \<noteq> Some (201, v)"
        by (simp add: w)
      show "client_status (handle (notes_post secret request) d) \<noteq> Some 201"
        by (rule c)
      show "fst (User_findById (decoded_id p) (fresh d)) = Inr None"
        by (rule l)
      show "handle (notes_post secret request) d =
                \<lparr>res = \<lparr>statusCode = 200, sent = None\<rparr>, store = d,
                 forwarded = Some (TypeError ''user.id''),
                 trace = [Called (JwtVerify (Some t)), Called (UserFindById (Some s)),
                          Forwarded (TypeError ''user.id'')]\<rparr>"
        by (rule w)
    next
      assume "castObjectId s = None"
      with Some show "fst (User_findById (decoded_id p) (fresh d)) = Inl CastError"
        by simp
    next
      assume "castObjectId s = None"
      with Some show "forwarded (handle (notes_post secret request) d) = Some CastError"
        by simp
    qed
  qed
qed

theorem create_for_missing_user_witness:
  "getTokenFrom (bearer ''stale-token'' newNote) = Some ''stale-token''
   \<and> exampleSecret ''stale-token'' = Some stalePayload
   \<and> decoded_id stalePayload = Some ''000000000000000000000009''
   \<and> castObjectId ''000000000000000000000009'' = Some 9
   \<and> find (\<lambda>u. user_id u = 9) (userStore exampleDb) = None
   \<and> handle (notes_post exampleSecret (bearer ''stale-token'' newNote)) exampleDb =
        \<lparr>res = \<lparr>statusCode = 200, sent = None\<rparr>, store = exampleDb,
         forwarded = Some (TypeError ''user.id''),
         trace = [Called (JwtVerify (Some ''stale-token'')),
                  Called (UserFindById (Some ''000000000000000000000009'')),
                  Forwarded (TypeError ''user.id'')]\<rparr>
   \<and> getTokenFrom (bearer ''malformed-token'' newNote) = Some ''malformed-token''
   \<and> exampleSecret ''malformed-token'' = Some malformedPayload
   \<and> decoded_id malformedPayload = Some ''not-an-id''
   \<and> castObjectId ''not-an-id'' = None
   \<and> forwarded (handle (notes_post exampleSecret (bearer ''malformed-token'' newNote)) exampleDb) =
        Some CastError
   \<and> store (handle (notes_post exampleSecret (bearer ''malformed-token'' newNote)) exampleDb) =
        exampleDb"
proof -
  have a: "getTokenFrom (bearer ''stale-token'' newNote) = Some ''stale-token''"
    by (rule token_of_bearer)
  have b: "exampleSecret ''stale-token'' = Some stalePayload"
    by (simp add: exampleSecret_def)
  have c: "decoded_id stalePayload = Some ''000000000000000000000009''"
    by (simp add: stalePayload_def)
  have e: "\<forall>u\<in>set (userStore exampleDb).
             castObjectId ''000000000000000000000009'' \<noteq> Some (user_id u)"
    by (simp add: cast9 exampleDb_def rootUser_def)
  have f: "find (\<lambda>u. user_id u = 9) (userStore exampleDb) = None"
    by (simp add: exampleDb_def rootUser_def)
  have a': "getTokenFrom (bearer ''malformed-token'' newNote) = Some ''malformed-token''"
    by (rule token_of_bearer)
  have b': "exampleSecret ''malformed-token'' = Some malformedPayload"
    by (simp add: exampleSecret_def)
  have c': "decoded_id malformedPayload = Some ''not-an-id''"
    by (simp add: malformedPayload_def)
  have e': "\<forall>u\<in>set (userStore exampleDb). castObjectId ''not-an-id'' \<noteq> Some (user_id u)"
    by (simp add: cast_text)
  note stale = create_for_missing_user
         [where request = "bearer ''stale-token'' newNote" and secret = exampleSecret
            and d = exampleDb and k = 9, OF a b c e]
  note malformed = create_for_missing_user
         [where request = "bearer ''malformed-token'' newNote" and secret = exampleSecret
            and d = exampleDb, OF a' b' c' e']
  note 1 = stale [THEN conjunct2, THEN conjunct2, THEN conjunct2, THEN conjunct2,
                  THEN conjunct1, THEN mp, OF cast9, THEN conjunct2]
  note 2 = malformed [THEN conjunct2, THEN conjunct2, THEN conjunct2, THEN conjunct2,
                      THEN conjunct2, THEN mp, OF cast_text, THEN conjunct2]
  note 3 = malformed [THEN conjunct1]
  from a b c cast9 f 1 a' b' c' cast_text 2 3 show ?thesis
    by (intro conjI)
qed

text \<open>
  C9 as stated has the lookup give \<open>null\<close> for every id that matches no stored user. For
  an id that is not in valid format the lookup throws a cast error instead, and no
  \<open>null\<close> user is read.
\<close>

theorem create_for_missing_user_counterexample:
  "getTokenFrom (bearer ''malformed-token'' newNote) = Some ''malformed-token''
   \<and> exampleSecret ''malformed-token'' = Some malformedPayload
   \<and> decoded_id malformedPayload = Some ''not-an-id''
   \<and> castObjectId ''not-an-id'' = None
   \<and> fst (User_findById (decoded_id malformedPayload) (fresh exampleDb)) = Inl CastError
   \<and> fst (User_findById (decoded_id malformedPayload) (fresh exampleDb)) \<noteq> Inr None
   \<and> handle (notes_post exampleSecret (bearer ''malformed-token'' newNote)) exampleDb =
        \<lparr>res = \<lparr>statusCode = 200, sent = None\<rparr>, store = exampleDb,
         forwarded = Some CastError,
         trace = [Called (JwtVerify (Some ''malformed-token'')),
                  Called (UserFindById (Some ''not-an-id'')),
                  Forwarded CastError]\<rparr>"
proof -
  have a: "getTokenFrom (bearer ''malformed-token'' newNote) = Some ''malformed-token''"
    by (rule token_of_bearer)
  have b: "exampleSecret ''malformed-token'' = Some malformedPayload"
    by (simp add: exampleSecret_def)
  have c: "decoded_id malformedPayload = Some ''not-an-id''"
    by (simp add: malformedPayload_def)
  have l: "fst (User_findById (decoded_id malformedPayload) (fresh exampleDb)) = Inl CastError"
    by (simp add: c User_findById_def io_defs cast_text)
  then have l': "fst (User_findById (decoded_id malformedPayload) (fresh exampleDb)) \<noteq> Inr None"
    by simp
  have w: "handle (notes_post exampleSecret (bearer ''malformed-token'' newNote)) exampleDb =
        \<lparr>res = \<lparr>statusCode = 200, sent = None\<rparr>, store = exampleDb,
         forwarded = Some CastError,
         trace = [Called (JwtVerify (Some ''malformed-token'')),
                  Called (UserFindById (Some ''not-an-id'')),
                  Forwarded CastError]\<rparr>"
    by (simp add: notes_post_def jwt_verify_def truthy_def User_findById_def io_defs a b c
        cast_text)
  from a b c cast_text l l' w show ?thesis
    by (intro conjI)
qed

text \<open>
  C10. When the authorization header is absent or does not begin with "Bearer" (exactly,
  in this case), \<open>getTokenFrom\<close> gives \<open>null\<close>, verification fails, the error is
  passed on and nothing is stored. When the header begins with "Bearer", the token is the
  header with its first occurrence of "Bearer " removed: for a header
  \<open>pre @ "Bearer " @ post\<close> with no occurrence starting inside \<open>pre\<close> the token is
  \<open>pre @ post\<close>, whatever \<open>post\<close> holds; a header without any occurrence is the token as
  it is.
\<close>

theorem getTokenFrom_bearer:
  "((authorization request = None \<or> (\<exists>a. authorization request = Some a \<and> \<not> startsWith a ''Bearer'')) \<longrightarrow>
      getTokenFrom request = None
      \<and> fst (jwt_verify secret (getTokenFrom request) (fresh d)) = Inl JsonWebTokenError
      \<and> handle (notes_post secret request) d =
          \<lparr>res = \<lparr>statusCode = 200, sent = None\<rparr>, store = d, forwarded = Some JsonWebTokenError,
           trace = [Called (JwtVerify None), Forwarded JsonWebTokenError]\<rparr>)
   \<and> (authorization request = Some a \<and> startsWith a ''Bearer'' \<longrightarrow>
      getTokenFrom request = Some (replace a ''Bearer '' [])
      \<and> (a = pre @ ''Bearer '' @ post \<and> (\<forall>j<length pre. \<not> startsWith (drop j a) ''Bearer '') \<longrightarrow>
           getTokenFrom request = Some (pre @ post))
      \<and> ((\<forall>j\<le>length a. \<not> startsWith (drop j a) ''Bearer '') \<longrightarrow>
           getTokenFrom request = Some a))"
proof (intro conjI impI)
  assume "authorization request = None \<or> (\<exists>a. authorization request = Some a \<and> \<not> startsWith a ''Bearer'')"
  then have none: "getTokenFrom request = None"
    by (rule getTokenFrom_None)
  show "getTokenFrom request = None"
    by (rule none)
  show "fst (jwt_verify secret (getTokenFrom request) (fresh d)) = Inl JsonWebTokenError"
    by (simp add: none jwt_verify_def throwM_def called_def)
  show "handle (notes_post secret request) d =
          \<lparr>res = \<lparr>statusCode = 200, sent = None\<rparr>, store = d, forwarded = Some JsonWebTokenError,
           trace = [Called (JwtVerify None), Forwarded JsonWebTokenError]\<rparr>"
    by (simp add: none notes_post_def jwt_verify_def io_defs)
next
  assume h: "authorization request = Some a \<and> startsWith a ''Bearer''"
  then have tok: "getTokenFrom request = Some (replace a ''Bearer '' [])"
    by (simp add: getTokenFrom_Some)
  show "getTokenFrom request = Some (replace a ''Bearer '' [])"
    by (rule tok)
  {
    assume occ: "a = pre @ ''Bearer '' @ post \<and> (\<forall>j<length pre. \<not> startsWith (drop j a) ''Bearer '')"
    then have eq: "a = pre @ ''Bearer '' @ post"
      by (rule conjunct1)
    from occ have "\<forall>j<length pre. \<not> startsWith (drop j a) ''Bearer ''"
      by (rule conjunct2)
    then have "\<forall>j<length pre. \<not> startsWith (drop j (pre @ ''Bearer '' @ post)) ''Bearer ''"
      unfolding eq .
    then have "replace (pre @ ''Bearer '' @ post) ''Bearer '' [] = pre @ [] @ post"
      by (rule replace_first_occurrence)
    then have "replace a ''Bearer '' [] = pre @ post"
      unfolding eq by simp
    then show "getTokenFrom request = Some (pre @ post)"
      using tok by simp
  }
  {
    assume "\<forall>j\<le>length a. \<not> startsWith (drop j a) ''Bearer ''"
    then have "replace a ''Bearer '' [] = a"
      by (rule replace_no_occurrence)
    then show "getTokenFrom request = Some a"
      using tok by simp
  }
qed

theorem getTokenFrom_bearer_witness:
  "getTokenFrom \<lparr>authorization = None, body = newNote\<rparr> = None
   \<and> handle (notes_post exampleSecret \<lparr>authorization = None, body = newNote\<rparr>) exampleDb =
        \<lparr>res = \<lparr>statusCode = 200, sent = None\<rparr>, store = exampleDb,
         forwarded = Some JsonWebTokenError,
         trace = [Called (JwtVerify None), Forwarded JsonWebTokenError]\<rparr>
   \<and> \<not> startsWith ''bearer root-token'' ''Bearer''
   \<and> getTokenFrom \<lparr>authorization = Some ''bearer root-token'', body = newNote\<rparr> = None
   \<and> startsWith ''Bearer Bearer root-token'' ''Bearer''
   \<and> getTokenFrom \<lparr>authorization = Some ''Bearer Bearer root-token'', body = newNote\<rparr> =
        Some ''Bearer root-token''
   \<and> startsWith ''BearerX Bearer root-token'' ''Bearer''
   \<and> getTokenFrom \<lparr>authorization = Some ''BearerX Bearer root-token'', body = newNote\<rparr> =
        Some ''BearerX root-token''
   \<and> startsWith ''Bearer'' ''Bearer''
   \<and> getTokenFrom \<lparr>authorization = Some ''Bearer'', body = newNote\<rparr> = Some ''Bearer''"
proof -
  let ?none = "\<lparr>authorization = None, body = newNote\<rparr>"
  let ?lower = "\<lparr>authorization = Some ''bearer root-token'', body = newNote\<rparr>"
  let ?twice = "\<lparr>authorization = Some ''Bearer Bearer root-token'', body = newNote\<rparr>"
  let ?later = "\<lparr>authorization = Some ''BearerX Bearer root-token'', body = newNote\<rparr>"
  let ?bare = "\<lparr>authorization = Some ''Bearer'', body = newNote\<rparr>"
  have s0: "\<not> startsWith ''bearer root-token'' ''Bearer''"
    by (simp add: startsWith_def)
  have s1: "startsWith ''Bearer Bearer root-token'' ''Bearer''"
    by (simp add: startsWith_def)
  have s2: "startsWith ''BearerX Bearer root-token'' ''Bearer''"
    by (simp add: startsWith_def)
  have s3: "startsWith ''Bearer'' ''Bearer''"
    by (simp add: startsWith_def)
  have a0: "authorization ?none = None \<or>
            (\<exists>a. authorization ?none = Some a \<and> \<not> startsWith a ''Bearer'')"
    by simp
  note none = getTokenFrom_bearer
         [where request = ?none and secret = exampleSecret and d = exampleDb,
          THEN conjunct1, THEN mp, OF a0]
  have a1: "authorization ?lower = None \<or>
            (\<exists>a. authorization ?lower = Some a \<and> \<not> startsWith a ''Bearer'')"
    using s0 by simp
  note lower = getTokenFrom_bearer
         [where request = ?lower and secret = exampleSecret and d = exampleDb,
          THEN conjunct1, THEN mp, OF a1]
  have a2: "authorization ?twice = Some ''Bearer Bearer root-token''
            \<and> startsWith ''Bearer Bearer root-token'' ''Bearer''"
    using s1 by simp
  have e2: "''Bearer Bearer root-token'' = [] @ ''Bearer '' @ ''Bearer root-token''
            \<and> (\<forall>j<length ([] :: string).
                  \<not> startsWith (drop j ''Bearer Bearer root-token'') ''Bearer '')"
    by simp
  from getTokenFrom_bearer
         [where request = ?twice and pre = "[]" and post = "''Bearer root-token''",
          THEN conjunct2, THEN mp, OF a2, THEN conjunct2, THEN conjunct1, THEN mp, OF e2]
  have 3: "getTokenFrom ?twice = Some ''Bearer root-token''"
    by simp
  have a3: "authorization ?later = Some ''BearerX Bearer root-token''
            \<and> startsWith ''BearerX Bearer root-token'' ''Bearer''"
    using s2 by simp
  have e3: "''BearerX Bearer root-token'' = ''BearerX '' @ ''Bearer '' @ ''root-token''
            \<and> (\<forall>j<length ''BearerX ''.
                  \<not> startsWith (drop j ''BearerX Bearer root-token'') ''Bearer '')"
    by (simp add: startsWith_def All_less_Suc)
  from getTokenFrom_bearer
         [where request = ?later and pre = "''BearerX ''" and post = "''root-token''",
          THEN conjunct2, THEN mp, OF a3, THEN conjunct2, THEN conjunct1, THEN mp, OF e3]
  have 4: "getTokenFrom ?later = Some ''BearerX root-token''"
    by simp
  have a4: "authorization ?bare = Some ''Bearer'' \<and> startsWith ''Bearer'' ''Bearer''"
    using s3 by simp
  have f4: "\<forall>j\<le>length ''Bearer''. \<not> startsWith (drop j ''Bearer'') ''Bearer ''"
  proof (intro allI impI notI)
    fix j assume "startsWith (drop j ''Bearer'') ''Bearer ''"
    then have "length ''Bearer '' \<le> length (drop j ''Bearer'')"
      by (rule startsWith_length)
    then show False
      by simp
  qed
  note 5 = getTokenFrom_bearer
         [where request = ?bare and pre = "[]" and post = "[]",
          THEN conjunct2, THEN mp, OF a4, THEN conjunct2, THEN conjunct2, THEN mp, OF f4]
  from none [THEN conjunct1] none [THEN conjunct2, THEN conjunct2] s0 lower [THEN conjunct1]
       s1 3 s2 4 s3 5
  show ?thesis
    by (intro conjI)
qed

end
